theory Spec2Isabelle
  imports Complex_Main "HOL-Library.Word" "HOL-Library.Sublist"
begin

section \<open>The web client of the image enhancer (web/src/app/App.tsx)\<close>

text \<open>
  The client is one React component, \<open>App\<close>, and one helper, \<open>dataUrlToBlob\<close>.
  Strings are lists of characters with codes 0 to 255 (every string that \<open>atob\<close>
  accepts or returns, and every ASCII data URL, is of this kind). Bytes of a
  \<open>Uint8Array\<close> are 8-bit words. An exception is a value on the left of a sum.
\<close>

subsection \<open>Characters\<close>

definition code :: "char \<Rightarrow> nat" where
  "code c = of_char c"

definition from_code :: "nat \<Rightarrow> char" where
  "from_code n = char_of n"

text \<open>ASCII whitespace of the DOM standard: TAB, LF, FF, CR and SPACE.\<close>

definition ascii_whitespace :: "char \<Rightarrow> bool" where
  "ascii_whitespace c = (code c = 9 \<or> code c = 10 \<or> code c = 12 \<or> code c = 13 \<or> code c = 32)"

text \<open>The line terminators that \<open>.\<close> of a regular expression does not match
  (LF and CR; U+2028 and U+2029 are beyond the characters modelled).\<close>

definition line_terminator :: "char \<Rightarrow> bool" where
  "line_terminator c = (code c = 10 \<or> code c = 13)"

definition ascii_lower :: "char \<Rightarrow> char" where
  "ascii_lower c = (if 65 \<le> code c \<and> code c \<le> 90 then from_code (code c + 32) else c)"

definition printable :: "char \<Rightarrow> bool" where
  "printable c = (32 \<le> code c \<and> code c \<le> 126)"

subsection \<open>Base64: the encoding of RFC 4648 and the decoder \<open>atob\<close>\<close>

text \<open>The character of a 6-bit value in the base64 alphabet A-Z, a-z, 0-9,
  \<open>+\<close> (code 43) and \<open>/\<close> (code 47).\<close>

definition b64_char :: "nat \<Rightarrow> char" where
  "b64_char n =
     (if n < 26 then from_code (65 + n)
      else if n < 52 then from_code (71 + n)
      else if n < 62 then from_code (n - 4)
      else if n = 62 then from_code 43
      else from_code 47)"

text \<open>The value of a character of the alphabet; \<open>None\<close> for any other character.\<close>

definition b64_value :: "char \<Rightarrow> nat option" where
  "b64_value c =
     (let n = code c in
      if 65 \<le> n \<and> n \<le> 90 then Some (n - 65)
      else if 97 \<le> n \<and> n \<le> 122 then Some (n - 71)
      else if 48 \<le> n \<and> n \<le> 57 then Some (n + 4)
      else if n = 43 then Some 62
      else if n = 47 then Some 63
      else None)"

text \<open>Bytes to 6-bit values, three bytes to four values; a last group of one or
  two bytes gives two or three values, the unused low bits zero.\<close>

fun sextets :: "nat list \<Rightarrow> nat list" where
  "sextets [] = []"
| "sextets [a] = [a div 4, (a mod 4) * 16]"
| "sextets [a, b] = [a div 4, (a mod 4) * 16 + b div 16, (b mod 16) * 4]"
| "sextets (a # b # c # bs) =
     [a div 4, (a mod 4) * 16 + b div 16, (b mod 16) * 4 + c div 64, c mod 64] @ sextets bs"

definition padding :: "nat \<Rightarrow> nat" where
  "padding n = (3 - n mod 3) mod 3"

text \<open>The base64 text of a byte sequence, padded with \<open>=\<close> to a multiple of four
  characters. This is the encoding the service applies to each image; the client only
  decodes.\<close>

definition base64 :: "8 word list \<Rightarrow> string" where
  "base64 bs = map b64_char (sextets (map unat bs)) @ replicate (padding (length bs)) CHR ''=''"

datatype js_error = InvalidCharacterError

text \<open>6-bit values back to bytes, as a binary string: four values give three
  characters; twelve remaining bits give one (the last four dropped), eighteen give
  two (the last two dropped). A single remaining value cannot occur: \<open>atob\<close> has
  failed before on such a length.\<close>

fun octets :: "nat list \<Rightarrow> string" where
  "octets [] = []"
| "octets [s1] = []"
| "octets [s1, s2] = [from_code (s1 * 4 + s2 div 16)]"
| "octets [s1, s2, s3] =
     [from_code (s1 * 4 + s2 div 16), from_code ((s2 mod 16) * 16 + s3 div 4)]"
| "octets (s1 # s2 # s3 # s4 # ss) =
     [from_code (s1 * 4 + s2 div 16), from_code ((s2 mod 16) * 16 + s3 div 4),
      from_code ((s3 mod 4) * 64 + s4)] @ octets ss"

text \<open>Step 2 of forgiving-base64 decoding: one or two \<open>=\<close> at the end are removed.\<close>

definition strip_padding :: "string \<Rightarrow> string" where
  "strip_padding d =
     (case rev d of
        c1 # c2 # r \<Rightarrow>
          if c1 = CHR ''='' \<and> c2 = CHR ''='' then rev r
          else if c1 = CHR ''='' then rev (c2 # r)
          else d
      | [c1] \<Rightarrow> if c1 = CHR ''='' then [] else d
      | [] \<Rightarrow> d)"

text \<open>\<open>atob\<close> (forgiving-base64 decode of the DOM standard): ASCII whitespace is
  removed; if the length is then a multiple of four, padding is stripped; a length
  of 1 modulo 4, or a character outside the alphabet, throws InvalidCharacterError.\<close>

definition atob :: "string \<Rightarrow> js_error + string" where
  "atob data =
     (let d1 = filter (\<lambda>c. \<not> ascii_whitespace c) data;
          d2 = (if length d1 mod 4 = 0 then strip_padding d1 else d1)
      in if length d2 mod 4 = 1 then Inl InvalidCharacterError
         else if list_ex (\<lambda>c. b64_value c = None) d2 then Inl InvalidCharacterError
         else Inr (octets (map (\<lambda>c. the (b64_value c)) d2)))"

subsection \<open>\<open>dataUrlToBlob\<close>\<close>

text \<open>\<open>s.split(',')\<close>: the pieces of \<open>s\<close> between commas; never empty.\<close>

fun split :: "char \<Rightarrow> string \<Rightarrow> string list" where
  "split sep [] = [[]]"
| "split sep (c # cs) =
     (if c = sep then [] # split sep cs
      else (case split sep cs of p # ps \<Rightarrow> (c # p) # ps | [] \<Rightarrow> [[c]]))"

text \<open>The regular expression \<open>/data:(.*);base64/\<close>. \<open>greedy_upto pat s\<close> matches
  \<open>(.*)pat\<close> at the start of \<open>s\<close> and returns the group: the longest run of
  characters other than line terminators that \<open>pat\<close> follows.\<close>

fun greedy_upto :: "string \<Rightarrow> string \<Rightarrow> string option" where
  "greedy_upto pat [] = (if pat = [] then Some [] else None)"
| "greedy_upto pat (c # cs) =
     (case (if line_terminator c then None else greedy_upto pat cs) of
        Some g \<Rightarrow> Some (c # g)
      | None \<Rightarrow> if prefix pat (c # cs) then Some [] else None)"

text \<open>\<open>header.match(/data:(.*);base64/)\<close>: the leftmost match; the result is the
  first group (\<open>mimeMatch[1]\<close>), \<open>None\<close> when \<open>match\<close> returns null.\<close>

fun mime_match :: "string \<Rightarrow> string option" where
  "mime_match [] = None"
| "mime_match (c # cs) =
     (case (if prefix ''data:'' (c # cs) then greedy_upto '';base64'' (drop 5 (c # cs)) else None) of
        Some g \<Rightarrow> Some g
      | None \<Rightarrow> mime_match cs)"

record blob =
  blob_bytes :: "8 word list"
  blob_type :: string

text \<open>\<open>new Blob([buf], { type })\<close>. The constructor of the File API normalises the
  type: a type with a character outside U+0020 to U+007E becomes the empty string,
  any other type is converted to ASCII lowercase.\<close>

definition new_Blob :: "8 word list \<Rightarrow> string \<Rightarrow> blob" where
  "new_Blob buf t =
     \<lparr>blob_bytes = buf,
      blob_type = (if list_all printable t then map ascii_lower t else [])\<rparr>"

text \<open>
  \<^verbatim>\<open>
  function dataUrlToBlob(dataUrl: string): Blob {
    const [header, base64] = dataUrl.split(',')
    const mimeMatch = header.match(/data:(.*);base64/)
    const mime = mimeMatch ? mimeMatch[1] : 'application/octet-stream'
    const bytes = atob(base64)
    const buf = new Uint8Array(bytes.length)
    for (let i = 0; i < bytes.length; i++) buf[i] = bytes.charCodeAt(i)
    return new Blob([buf], { type: mime })
  }
  \<close>
  Without a comma in \<open>dataUrl\<close> the second piece is \<open>undefined\<close>, which \<open>atob\<close>
  converts to the string \<open>undefined\<close>. The loop copies the character codes into the
  array.
\<close>

definition dataUrlToBlob :: "string \<Rightarrow> js_error + blob" where
  "dataUrlToBlob dataUrl =
     (let parts = split CHR '','' dataUrl;
          header = hd parts;
          base64 = (case tl parts of [] \<Rightarrow> ''undefined'' | b # _ \<Rightarrow> b);
          mimeMatch = mime_match header;
          mime = (case mimeMatch of Some g \<Rightarrow> g | None \<Rightarrow> ''application/octet-stream'')
      in case atob base64 of
           Inl e \<Rightarrow> Inl e
         | Inr bytes \<Rightarrow> Inr (new_Blob (map (\<lambda>c. of_nat (code c)) bytes) mime))"

subsection \<open>Numbers, files and forms\<close>

text \<open>A JavaScript number is a double. \<open>Num q\<close> is the Number value for the
  rational \<open>q\<close> (the double nearest \<open>q\<close>), which is what a numeric literal and the
  parsing functions denote. The component does no arithmetic on numbers: it parses
  them, stores them and converts them to strings.\<close>

datatype jsnum = NaN | Num rat

text \<open>White space that \<open>parseInt\<close> skips, among the characters modelled: TAB, LF, VT,
  FF, CR, SPACE and the no-break space.\<close>

definition js_whitespace :: "char \<Rightarrow> bool" where
  "js_whitespace c =
     (code c = 9 \<or> code c = 10 \<or> code c = 11 \<or> code c = 12 \<or> code c = 13 \<or> code c = 32
      \<or> code c = 160)"

definition digit_value :: "nat \<Rightarrow> char \<Rightarrow> nat option" where
  "digit_value radix c =
     (let n = code c;
          v = (if 48 \<le> n \<and> n \<le> 57 then Some (n - 48)
               else if 97 \<le> n \<and> n \<le> 122 then Some (n - 87)
               else if 65 \<le> n \<and> n \<le> 90 then Some (n - 55)
               else None)
      in case v of None \<Rightarrow> None | Some d \<Rightarrow> if d < radix then Some d else None)"

text \<open>\<open>parseInt(str)\<close> with no radix: leading white space is skipped, a sign is read,
  a prefix \<open>0x\<close> or \<open>0X\<close> selects radix 16, and the longest run of digits is the
  value; with no digit the result is NaN.\<close>

definition parseInt :: "string \<Rightarrow> jsnum" where
  "parseInt str =
     (let s = dropWhile js_whitespace str;
          neg = (case s of [] \<Rightarrow> False | c # _ \<Rightarrow> c = CHR ''-'');
          s1 = (case s of [] \<Rightarrow> s | c # r \<Rightarrow> if c = CHR ''+'' \<or> c = CHR ''-'' then r else s);
          hex = (case s1 of a # b # _ \<Rightarrow> a = CHR ''0'' \<and> (b = CHR ''x'' \<or> b = CHR ''X'') | _ \<Rightarrow> False);
          radix = (if hex then 16 else 10);
          s2 = (if hex then drop 2 s1 else s1);
          z = takeWhile (\<lambda>c. digit_value radix c \<noteq> None) s2;
          mathInt = foldl (\<lambda>a c. a * radix + the (digit_value radix c)) 0 z
      in if z = [] then NaN
         else Num (if neg then - of_nat mathInt else of_nat mathInt))"

text \<open>The decimal digits of a natural number (\<open>String\<close> of an HTTP status).\<close>

fun string_of_nat :: "nat \<Rightarrow> string" where
  "string_of_nat n =
     (if n < 10 then [from_code (48 + n)]
      else string_of_nat (n div 10) @ [from_code (48 + n mod 10)])"

declare string_of_nat.simps [simp del]

record jsfile =
  file_name :: string
  file_type :: string
  file_bytes :: "8 word list"

text \<open>A value of a \<open>FormData\<close> entry: a file, or \<open>String(x)\<close> for a number \<open>x\<close>.\<close>

datatype form_value = FileValue jsfile | StringOf jsnum

type_synonym form = "(string \<times> form_value) list"

definition form_append :: "form \<Rightarrow> string \<Rightarrow> form_value \<Rightarrow> form" where
  "form_append form name v = form @ [(name, v)]"

record request =
  req_method :: string
  req_url :: string
  req_body :: form

subsection \<open>The state of \<open>App\<close>\<close>

text \<open>The JSON of a response: an object with the optional keys \<open>png\<close>, \<open>jpg\<close>,
  \<open>webp\<close> and \<open>apng\<close>.\<close>

record api_result =
  png :: "string option"
  jpg :: "string option"
  webp :: "string option"
  apng :: "string option"

text \<open>One field for each \<open>useState\<close> of the component.\<close>

record app_state =
  file' :: "jsfile option"
  busy :: bool
  error :: "string option"
  scale :: jsnum
  width :: string
  height :: string
  denoiseLuma :: jsnum
  denoiseColor :: jsnum
  claheClip :: jsnum
  sharpenAmount :: jsnum
  sharpenSigma :: jsnum
  saturation :: jsnum
  result :: "api_result option"

definition App_initial :: app_state where
  "App_initial =
     \<lparr>file' = None, busy = False, error = None, scale = Num 2, width = [], height = [],
      denoiseLuma = Num 5, denoiseColor = Num 5, claheClip = Num 2.0,
      sharpenAmount = Num 0.6, sharpenSigma = Num 1.2, saturation = Num 1.05,
      result = None\<rparr>"

text \<open>\<open>API_BASE\<close>: the environment variable \<open>VITE_API_BASE\<close>, or the local address
  when it is unset or empty.\<close>

definition API_BASE :: "string option \<Rightarrow> string" where
  "API_BASE env =
     (case env of
        None \<Rightarrow> ''http://localhost:8000''
      | Some v \<Rightarrow> if v \<noteq> [] then v else ''http://localhost:8000'')"

definition canSubmit :: "app_state \<Rightarrow> bool" where
  "canSubmit s = (file' s \<noteq> None \<and> \<not> busy s)"

subsection \<open>\<open>onSubmit\<close>\<close>

text \<open>How a request ends. \<open>fetch\<close> rejects with an error (its message, if it has
  one), or resolves with a response of some status whose body \<open>res.json()\<close> parses
  or fails to parse. \<open>res.ok\<close> holds for a status from 200 to 299.\<close>

datatype json_body = Unparsable "string option" | Parsed "api_result option"

datatype fetch_outcome = Rejected "string option" | Response nat json_body

definition res_ok :: "nat \<Rightarrow> bool" where
  "res_ok status = (200 \<le> status \<and> status \<le> 299)"

text \<open>
  \<^verbatim>\<open>
    if (!file) return
    setBusy(true); setError(null); setResult(null)
    const form = new FormData()
    form.append('file', file)
    if (width || height) {
      if (width) form.append('width', String(parseInt(width)))
      if (height) form.append('height', String(parseInt(height)))
    } else {
      form.append('scale', String(scale))
    }
    form.append('denoise_luma', String(denoiseLuma))
    ...
    form.append('saturation', String(saturation))
  \<close>
  The part of \<open>onSubmit\<close> before the first \<open>await\<close>: the new state, and the request
  that \<open>fetch\<close> is called with, if any. A string is truthy when it is not empty.
\<close>

definition build_form :: "app_state \<Rightarrow> jsfile \<Rightarrow> form" where
  "build_form s f =
     (let form0 = form_append [] ''file'' (FileValue f);
          form1 =
            (if width s \<noteq> [] \<or> height s \<noteq> [] then
               (let fw = (if width s \<noteq> [] then
                            form_append form0 ''width'' (StringOf (parseInt (width s)))
                          else form0)
                in if height s \<noteq> [] then
                     form_append fw ''height'' (StringOf (parseInt (height s)))
                   else fw)
             else form_append form0 ''scale'' (StringOf (scale s)));
          form2 = form_append form1 ''denoise_luma'' (StringOf (denoiseLuma s));
          form3 = form_append form2 ''denoise_color'' (StringOf (denoiseColor s));
          form4 = form_append form3 ''clahe_clip'' (StringOf (claheClip s));
          form5 = form_append form4 ''sharpen_amount'' (StringOf (sharpenAmount s));
          form6 = form_append form5 ''sharpen_sigma'' (StringOf (sharpenSigma s))
      in form_append form6 ''saturation'' (StringOf (saturation s)))"

definition onSubmit_sync :: "string option \<Rightarrow> app_state \<Rightarrow> app_state \<times> request option" where
  "onSubmit_sync env s =
     (case file' s of
        None \<Rightarrow> (s, None)
      | Some f \<Rightarrow>
          (s\<lparr>busy := True, error := None, result := None\<rparr>,
           Some \<lparr>req_method = ''POST'', req_url = API_BASE env @ ''/api/enhance'',
                 req_body = build_form s f\<rparr>))"

text \<open>
  \<^verbatim>\<open>
    try {
      const res = await fetch(`${API_BASE}/api/enhance`, { method: 'POST', body: form })
      if (!res.ok) throw new Error(`API error: ${res.status}`)
      const data = await res.json()
      setResult(data)
    } catch (err: any) {
      setError(err?.message || 'Unknown error')
    } finally {
      setBusy(false)
    }
  \<close>
  The \<open>try\<close> block gives the parsed data, or the message of what was thrown.
\<close>

definition try_block :: "fetch_outcome \<Rightarrow> string option + api_result option" where
  "try_block out =
     (case out of
        Rejected m \<Rightarrow> Inl m
      | Response status body \<Rightarrow>
          if \<not> res_ok status then Inl (Some (''API error: '' @ string_of_nat status))
          else (case body of Unparsable m \<Rightarrow> Inl m | Parsed data \<Rightarrow> Inr data))"

definition message_or_unknown :: "string option \<Rightarrow> string" where
  "message_or_unknown m =
     (case m of None \<Rightarrow> ''Unknown error'' | Some t \<Rightarrow> if t \<noteq> [] then t else ''Unknown error'')"

definition onSubmit_settle :: "fetch_outcome \<Rightarrow> app_state \<Rightarrow> app_state" where
  "onSubmit_settle out s =
     (let s1 = (case try_block out of
                  Inr data \<Rightarrow> s\<lparr>result := data\<rparr>
                | Inl m \<Rightarrow> s\<lparr>error := Some (message_or_unknown m)\<rparr>)
      in s1\<lparr>busy := False\<rparr>)"

text \<open>One whole call of \<open>onSubmit\<close> against a service that answers each request:
  the final state and the requests issued.\<close>

definition onSubmit :: "string option \<Rightarrow> (request \<Rightarrow> fetch_outcome) \<Rightarrow> app_state \<Rightarrow> app_state \<times> request list" where
  "onSubmit env service s =
     (case onSubmit_sync env s of
        (s1, None) \<Rightarrow> (s1, [])
      | (s1, Some req) \<Rightarrow> (onSubmit_settle (service req) s1, [req]))"

subsection \<open>Rendering\<close>

text \<open>The parts of the rendered page that depend on the state. A download link holds
  the blob that its object URL stands for.\<close>

datatype element =
    ErrorText string
  | Heading string
  | Preview string
  | DownloadLink string blob string

text \<open>
  \<^verbatim>\<open>
    if (!dataUrl) return null
    const blob = useMemo(() => dataUrlToBlob(dataUrl), [dataUrl])
    const href = useMemo(() => URL.createObjectURL(blob), [blob])
    return (<a href={href} download={filename}><button ...>Download {label}</button></a>)
  \<close>
  An exception of \<open>dataUrlToBlob\<close> is an exception of the render.
\<close>

definition DownloadButton :: "string \<Rightarrow> string option \<Rightarrow> string \<Rightarrow> js_error + element list" where
  "DownloadButton label dataUrl filename =
     (case dataUrl of
        None \<Rightarrow> Inr []
      | Some u \<Rightarrow>
          if u = [] then Inr []
          else (case dataUrlToBlob u of
                  Inl e \<Rightarrow> Inl e
                | Inr b \<Rightarrow> Inr [DownloadLink label b filename]))"

fun collect :: "(js_error + element list) list \<Rightarrow> js_error + element list" where
  "collect [] = Inr []"
| "collect (x # xs) =
     (case x of
        Inl e \<Rightarrow> Inl e
      | Inr a \<Rightarrow> (case collect xs of Inl e \<Rightarrow> Inl e | Inr b \<Rightarrow> Inr (a @ b)))"

definition render_error :: "app_state \<Rightarrow> element list" where
  "render_error s =
     (case error s of None \<Rightarrow> [] | Some m \<Rightarrow> if m \<noteq> [] then [ErrorText m] else [])"

definition render_result :: "api_result option \<Rightarrow> js_error + element list" where
  "render_result res =
     (case res of
        None \<Rightarrow> Inr []
      | Some r \<Rightarrow>
          collect
            [Inr [Heading ''Result''],
             Inr (case png r of None \<Rightarrow> [] | Some u \<Rightarrow> if u \<noteq> [] then [Preview u] else []),
             DownloadButton ''PNG'' (png r) ''image_enhanced.png'',
             DownloadButton ''JPG'' (jpg r) ''image_enhanced.jpg'',
             DownloadButton ''WEBP'' (webp r) ''image_enhanced.webp'',
             DownloadButton ''APNG'' (apng r) ''image_enhanced.apng''])"

text \<open>The \<open>disabled\<close> attributes of the submit button and of the scale input.\<close>

definition submit_disabled :: "app_state \<Rightarrow> bool" where
  "submit_disabled s = (\<not> canSubmit s)"

definition scale_disabled :: "app_state \<Rightarrow> bool" where
  "scale_disabled s = (width s \<noteq> [] \<or> height s \<noteq> [])"

subsection \<open>Constraint validation of the form\<close>

text \<open>The form has no \<open>noValidate\<close>, so the browser validates its inputs before it
  fires the submit event. The number inputs carry these attributes:
  \<^verbatim>\<open>
    scale:         step="0.1"                    disabled={!!(width || height)}
    width, height: min="1"
    denoiseLuma, denoiseColor: min="0" max="20"
    claheClip:     step="0.1"  min="0.5" max="5"
    sharpenAmount: step="0.1"  min="0"   max="2"
    sharpenSigma:  step="0.1"  min="0.1" max="3"
    saturation:    step="0.01" min="0"   max="2"
  \<close>
  An input with an empty value has nothing to check. Otherwise its number must not be
  below \<open>min\<close>, not above \<open>max\<close>, and must differ from the step base by a whole number
  of steps; the step is 1 when none is given, and the step base is \<open>min\<close>. The
  scale input has no \<open>min\<close>: its step base is its \<open>value\<close> attribute, which React
  keeps in step with the value except while the input is edited, so the state does
  not decide its validity. Numbers are compared as the rationals they stand for.\<close>

definition is_digit :: "char \<Rightarrow> bool" where
  "is_digit c = (48 \<le> code c \<and> code c \<le> 57)"

definition digits_value :: "string \<Rightarrow> nat" where
  "digits_value ds = foldl (\<lambda>a c. a * 10 + (code c - 48)) 0 ds"

text \<open>The number of a valid floating-point number of HTML: an optional \<open>-\<close>, digits
  and/or a point followed by digits, and an optional exponent (\<open>e\<close> or \<open>E\<close>, an
  optional sign, digits). \<open>None\<close> for any other string.\<close>

definition html_number :: "string \<Rightarrow> rat option" where
  "html_number v =
     (let neg = (case v of [] \<Rightarrow> False | c # _ \<Rightarrow> c = CHR ''-'');
          s1 = (if neg then tl v else v);
          ip = takeWhile is_digit s1;
          s2 = dropWhile is_digit s1;
          dot = (case s2 of [] \<Rightarrow> False | c # _ \<Rightarrow> c = CHR ''.'');
          fp = (if dot then takeWhile is_digit (tl s2) else []);
          s3 = (if dot then dropWhile is_digit (tl s2) else s2);
          ex = (case s3 of [] \<Rightarrow> False | c # _ \<Rightarrow> c = CHR ''e'' \<or> c = CHR ''E'');
          s4 = (if ex then tl s3 else []);
          eneg = (case s4 of [] \<Rightarrow> False | c # _ \<Rightarrow> c = CHR ''-'');
          s5 = (case s4 of [] \<Rightarrow> s4 | c # r \<Rightarrow> if c = CHR ''-'' \<or> c = CHR ''+'' then r else s4);
          mant = (of_nat (digits_value ip) + of_nat (digits_value fp) / 10 ^ length fp :: rat)
      in if (ip = [] \<and> fp = []) \<or> (dot \<and> fp = []) \<or> (\<not> ex \<and> s3 \<noteq> [])
            \<or> (ex \<and> (s5 = [] \<or> \<not> list_all is_digit s5))
         then None
         else Some ((if neg then - mant else mant)
                    * (if eneg then 1 / 10 ^ digits_value s5 else 10 ^ digits_value s5)))"

text \<open>A number against \<open>min\<close>, \<open>max\<close> and \<open>step\<close>, with the step base \<open>base\<close>.\<close>

definition number_ok :: "rat option \<Rightarrow> rat option \<Rightarrow> rat \<Rightarrow> rat \<Rightarrow> rat \<Rightarrow> bool" where
  "number_ok lo hi step base q =
     ((case lo of None \<Rightarrow> True | Some m \<Rightarrow> m \<le> q) \<and>
      (case hi of None \<Rightarrow> True | Some m \<Rightarrow> q \<le> m) \<and>
      (q - base) / step = of_int \<lfloor>(q - base) / step\<rfloor>)"

text \<open>An input whose value is a string of the state (width, height). A value that is
  not a number cannot be in such an input; it is taken as empty.\<close>

definition text_input_ok :: "rat option \<Rightarrow> rat option \<Rightarrow> rat \<Rightarrow> rat \<Rightarrow> string \<Rightarrow> bool" where
  "text_input_ok lo hi step base v =
     (case html_number v of None \<Rightarrow> True | Some q \<Rightarrow> number_ok lo hi step base q)"

text \<open>An input whose value is a number of the state. React writes the number into
  the input; for NaN the input is empty.\<close>

definition number_input_ok :: "rat option \<Rightarrow> rat option \<Rightarrow> rat \<Rightarrow> rat \<Rightarrow> jsnum \<Rightarrow> bool" where
  "number_input_ok lo hi step base x =
     (case x of NaN \<Rightarrow> True | Num q \<Rightarrow> number_ok lo hi step base q)"

text \<open>The constraints of the form that the state decides: those of every input but
  the scale input.\<close>

definition constraints_met :: "app_state \<Rightarrow> bool" where
  "constraints_met s =
     (text_input_ok (Some 1) None 1 1 (width s) \<and>
      text_input_ok (Some 1) None 1 1 (height s) \<and>
      number_input_ok (Some 0) (Some 20) 1 0 (denoiseLuma s) \<and>
      number_input_ok (Some 0) (Some 20) 1 0 (denoiseColor s) \<and>
      number_input_ok (Some 0.5) (Some 5) 0.1 0.5 (claheClip s) \<and>
      number_input_ok (Some 0) (Some 2) 0.1 0 (sharpenAmount s) \<and>
      number_input_ok (Some 0.1) (Some 3) 0.1 0.1 (sharpenSigma s) \<and>
      number_input_ok (Some 0) (Some 2) 0.01 0 (saturation s))"

text \<open>A click on the submit button (or the Enter key in a field). Nothing happens
  while the button is disabled or the form fails the validation \<open>valid\<close> of the
  browser; otherwise the submit event runs \<open>onSubmit\<close>.\<close>

definition request_submit ::
  "string option \<Rightarrow> (app_state \<Rightarrow> bool) \<Rightarrow> app_state \<Rightarrow> app_state \<times> request option" where
  "request_submit env valid s =
     (if submit_disabled s \<or> \<not> valid s then (s, None) else onSubmit_sync env s)"

subsection \<open>The component over time\<close>

text \<open>What can happen to a mounted component: the user picks a file or edits a
  field (the \<open>onChange\<close> handlers; a number field delivers the parsed number), the
  user asks to submit the form, or the request in flight ends. The parameter \<open>valid\<close>
  is the constraint validation of the browser; \<open>constraints_met\<close> is the part of it
  that the state decides.\<close>

datatype event =
    ChooseFile "jsfile option"
  | SetScale jsnum
  | SetWidth string
  | SetHeight string
  | SetDenoiseLuma string
  | SetDenoiseColor string
  | SetClaheClip jsnum
  | SetSharpenAmount jsnum
  | SetSharpenSigma jsnum
  | SetSaturation jsnum
  | Submit
  | Settle fetch_outcome

text \<open>The component, the requests in flight and the log of all requests issued.\<close>

record system =
  ui :: app_state
  in_flight :: "request list"
  issued :: "request list"

fun handle :: "string option \<Rightarrow> (app_state \<Rightarrow> bool) \<Rightarrow> event \<Rightarrow> system \<Rightarrow> system" where
  "handle env valid (ChooseFile f) t = t\<lparr>ui := (ui t)\<lparr>file' := f\<rparr>\<rparr>"
| "handle env valid (SetScale x) t = t\<lparr>ui := (ui t)\<lparr>scale := x\<rparr>\<rparr>"
| "handle env valid (SetWidth v) t = t\<lparr>ui := (ui t)\<lparr>width := v\<rparr>\<rparr>"
| "handle env valid (SetHeight v) t = t\<lparr>ui := (ui t)\<lparr>height := v\<rparr>\<rparr>"
| "handle env valid (SetDenoiseLuma v) t = t\<lparr>ui := (ui t)\<lparr>denoiseLuma := parseInt v\<rparr>\<rparr>"
| "handle env valid (SetDenoiseColor v) t = t\<lparr>ui := (ui t)\<lparr>denoiseColor := parseInt v\<rparr>\<rparr>"
| "handle env valid (SetClaheClip x) t = t\<lparr>ui := (ui t)\<lparr>claheClip := x\<rparr>\<rparr>"
| "handle env valid (SetSharpenAmount x) t = t\<lparr>ui := (ui t)\<lparr>sharpenAmount := x\<rparr>\<rparr>"
| "handle env valid (SetSharpenSigma x) t = t\<lparr>ui := (ui t)\<lparr>sharpenSigma := x\<rparr>\<rparr>"
| "handle env valid (SetSaturation x) t = t\<lparr>ui := (ui t)\<lparr>saturation := x\<rparr>\<rparr>"
| "handle env valid Submit t =
     (case request_submit env valid (ui t) of
        (s1, None) \<Rightarrow> t\<lparr>ui := s1\<rparr>
      | (s1, Some req) \<Rightarrow>
          t\<lparr>ui := s1, in_flight := in_flight t @ [req], issued := issued t @ [req]\<rparr>)"
| "handle env valid (Settle out) t =
     (case in_flight t of
        [] \<Rightarrow> t
      | req # rest \<Rightarrow> t\<lparr>ui := onSubmit_settle out (ui t), in_flight := rest\<rparr>)"

text \<open>A freshly mounted component, and a sequence of events handled in order.\<close>

definition mounted :: system where
  "mounted = \<lparr>ui = App_initial, in_flight = [], issued = []\<rparr>"

fun run :: "string option \<Rightarrow> (app_state \<Rightarrow> bool) \<Rightarrow> event list \<Rightarrow> system \<Rightarrow> system" where
  "run env valid [] t = t"
| "run env valid (e # es) t = run env valid es (handle env valid e t)"

text \<open>The form of the request has a file under the name \<open>file\<close>.\<close>

definition has_file :: "request \<Rightarrow> bool" where
  "has_file req = (case map_of (req_body req) ''file'' of Some (FileValue f) \<Rightarrow> True | _ \<Rightarrow> False)"

section \<open>The service, as the specification describes it\<close>

text \<open>The client talks to a service (backend/app.py, scripts/enhance.py in the
  README's project structure). What follows describes that service as the
  specification and the API reference of the README do.\<close>

text \<open>Modelled from the spec: the error taxonomy of section 7; the service's
  exceptions are missing.\<close>

datatype pipeline_error = DecodeError | InvalidGeometryError | InvalidOptionError | EncodeError

text \<open>Modelled from the spec: EnhancementOptions of section 3, its fields and
  defaults. The service's own declaration of the options is missing.\<close>

record EnhancementOptions =
  opt_scale :: rat
  targetWidth :: "int option"
  targetHeight :: "int option"
  opt_denoiseLuma :: int
  opt_denoiseColor :: int
  opt_claheClip :: rat
  opt_sharpenAmount :: rat
  opt_sharpenSigma :: rat
  opt_saturation :: rat

text \<open>Modelled from the spec: the defaults of section 3; the service's defaults are
  missing.\<close>

definition default_options :: EnhancementOptions where
  "default_options =
     \<lparr>opt_scale = 2.0, targetWidth = None, targetHeight = None, opt_denoiseLuma = 5,
      opt_denoiseColor = 5, opt_claheClip = 2.0, opt_sharpenAmount = 0.6,
      opt_sharpenSigma = 1.2, opt_saturation = 1.05\<rparr>"

text \<open>Modelled from the spec: the four cases of the Geometry Planner of section 4.2,
  whose code is missing. The source size is that of an Image, both sides positive.
  \<open>round\<close> is to the nearest integer; the spec does not say how a tie is rounded.\<close>

definition target_size :: "int \<Rightarrow> int \<Rightarrow> EnhancementOptions \<Rightarrow> int \<times> int" where
  "target_size sourceW sourceH opts =
     (case (targetWidth opts, targetHeight opts) of
        (Some w, Some h) \<Rightarrow> (w, h)
      | (Some w, None) \<Rightarrow> (w, round (of_int w * of_int sourceH / (of_int sourceW :: rat)))
      | (None, Some h) \<Rightarrow> (round (of_int h * of_int sourceW / (of_int sourceH :: rat)), h)
      | (None, None) \<Rightarrow>
          (round (of_int sourceW * opt_scale opts), round (of_int sourceH * opt_scale opts)))"

text \<open>Modelled from the spec: \<open>plan\<close> of section 4.2, failing with
  InvalidGeometryError when a side of the target is below 1. Its code is missing.\<close>

definition plan :: "int \<Rightarrow> int \<Rightarrow> EnhancementOptions \<Rightarrow> pipeline_error + int \<times> int" where
  "plan sourceW sourceH opts =
     (let (targetW, targetH) = target_size sourceW sourceH opts
      in if targetW < 1 \<or> targetH < 1 then Inl InvalidGeometryError
         else Inr (targetW, targetH))"

text \<open>Modelled from the spec: the documented ranges of section 3, which section 7
  has InvalidOptionError guard. The scale is ignored entirely, so not checked, when
  a target side is set. The service's validation is missing.\<close>

definition valid_options :: "EnhancementOptions \<Rightarrow> bool" where
  "valid_options opts =
     ((case targetWidth opts of None \<Rightarrow> True | Some w \<Rightarrow> 0 < w) \<and>
      (case targetHeight opts of None \<Rightarrow> True | Some h \<Rightarrow> 0 < h) \<and>
      (if targetWidth opts = None \<and> targetHeight opts = None then 0 < opt_scale opts else True) \<and>
      0 \<le> opt_denoiseLuma opts \<and> opt_denoiseLuma opts \<le> 20 \<and>
      0 \<le> opt_denoiseColor opts \<and> opt_denoiseColor opts \<le> 20 \<and>
      0.5 \<le> opt_claheClip opts \<and> opt_claheClip opts \<le> 5.0 \<and>
      0 \<le> opt_sharpenAmount opts \<and> opt_sharpenAmount opts \<le> 2.0 \<and>
      0.1 \<le> opt_sharpenSigma opts \<and> opt_sharpenSigma opts \<le> 3.0 \<and>
      0 \<le> opt_saturation opts \<and> opt_saturation opts \<le> 2.0)"

text \<open>Modelled from the spec: the entry point \<open>enhance\<close> of section 6 with the data
  flow of section 2: options are checked, the bytes decoded, the target planned, the
  stages run and the result encoded; the first failure ends the request. The
  decoder, the stages and the encoder are missing and are parameters here.\<close>

definition enhance ::
  "(8 word list \<Rightarrow> pipeline_error + 'img) \<Rightarrow> ('img \<Rightarrow> int \<times> int) \<Rightarrow>
   ('img \<Rightarrow> EnhancementOptions \<Rightarrow> int \<times> int \<Rightarrow> 'img) \<Rightarrow> ('img \<Rightarrow> pipeline_error + 'out) \<Rightarrow>
   8 word list \<Rightarrow> EnhancementOptions \<Rightarrow> pipeline_error + 'out" where
  "enhance decode size_of stages encode inputBytes opts =
     (if \<not> valid_options opts then Inl InvalidOptionError
      else (case decode inputBytes of
              Inl e \<Rightarrow> Inl e
            | Inr img \<Rightarrow>
                (case plan (fst (size_of img)) (snd (size_of img)) opts of
                   Inl e \<Rightarrow> Inl e
                 | Inr target \<Rightarrow> encode (stages img opts target))))"

text \<open>Modelled from the spec: a field of the HTTP boundary of section 6 that holds
  a string-encoded real number; an absent field takes its default, and a field that
  is not a number is an invalid option. The service's request handler is missing.\<close>

definition float_field :: "form \<Rightarrow> string \<Rightarrow> rat \<Rightarrow> pipeline_error + rat" where
  "float_field form name dflt =
     (case map_of form name of
        None \<Rightarrow> Inr dflt
      | Some (StringOf (Num q)) \<Rightarrow> Inr q
      | Some _ \<Rightarrow> Inl InvalidOptionError)"

text \<open>Modelled from the spec: a field of the HTTP boundary of section 6 that holds
  a string-encoded integer, or is absent; a number that is not an integer is an
  invalid option. The service's request handler is missing.\<close>

definition int_field :: "form \<Rightarrow> string \<Rightarrow> pipeline_error + int option" where
  "int_field form name =
     (case map_of form name of
        None \<Rightarrow> Inr None
      | Some (StringOf (Num q)) \<Rightarrow>
          if q = of_int \<lfloor>q\<rfloor> then Inr (Some \<lfloor>q\<rfloor>) else Inl InvalidOptionError
      | Some _ \<Rightarrow> Inl InvalidOptionError)"

text \<open>Modelled from the spec: the options of a request, read from the form fields
  of the HTTP boundary of section 6 under the names and with the defaults of the
  README's API reference (scale, width, height, denoise_luma, denoise_color,
  clahe_clip, sharpen_amount, sharpen_sigma, saturation). The service's request
  handler is missing.\<close>

definition options_of_form :: "form \<Rightarrow> pipeline_error + EnhancementOptions" where
  "options_of_form form =
     (case (float_field form ''scale'' 2.0, int_field form ''width'', int_field form ''height'',
            int_field form ''denoise_luma'', int_field form ''denoise_color'',
            float_field form ''clahe_clip'' 2.0, float_field form ''sharpen_amount'' 0.6,
            float_field form ''sharpen_sigma'' 1.2, float_field form ''saturation'' 1.05) of
        (Inr sc, Inr w, Inr h, Inr dl, Inr dc, Inr cc, Inr sa, Inr ss, Inr st) \<Rightarrow>
          Inr \<lparr>opt_scale = sc, targetWidth = w, targetHeight = h,
               opt_denoiseLuma = (case dl of None \<Rightarrow> 5 | Some n \<Rightarrow> n),
               opt_denoiseColor = (case dc of None \<Rightarrow> 5 | Some n \<Rightarrow> n),
               opt_claheClip = cc, opt_sharpenAmount = sa, opt_sharpenSigma = ss,
               opt_saturation = st\<rparr>
      | _ \<Rightarrow> Inl InvalidOptionError)"

text \<open>Modelled from the spec: POST /api/enhance of section 6: the options are read
  from the form and \<open>enhance\<close> is run on the bytes of the file field (on no bytes
  when there is none). The service's request handler is missing.\<close>

definition api_enhance ::
  "(8 word list \<Rightarrow> pipeline_error + 'img) \<Rightarrow> ('img \<Rightarrow> int \<times> int) \<Rightarrow>
   ('img \<Rightarrow> EnhancementOptions \<Rightarrow> int \<times> int \<Rightarrow> 'img) \<Rightarrow> ('img \<Rightarrow> pipeline_error + 'out) \<Rightarrow>
   form \<Rightarrow> pipeline_error + 'out" where
  "api_enhance decode size_of stages encode form =
     (case options_of_form form of
        Inl e \<Rightarrow> Inl e
      | Inr opts \<Rightarrow>
          enhance decode size_of stages encode
            (case map_of form ''file'' of Some (FileValue f) \<Rightarrow> file_bytes f | _ \<Rightarrow> [])
            opts)"

text \<open>Modelled from the spec: the embedded-data string of a response of section 6,
  MIME-prefixed with a base64 body. The service's encoder is missing.\<close>

definition data_url :: "string \<Rightarrow> 8 word list \<Rightarrow> string" where
  "data_url mime bs = ''data:'' @ mime @ '';base64,'' @ base64 bs"

text \<open>Modelled from the spec: the names of the option fields in section 3.\<close>

definition spec_option_names :: "string list" where
  "spec_option_names =
     [''scale'', ''targetWidth'', ''targetHeight'', ''denoiseLuma'', ''denoiseColor'',
      ''claheClip'', ''sharpenAmount'', ''sharpenSigma'', ''saturation'']"

section \<open>What a rendered result should hold\<close>

text \<open>An image of a response: its MIME type and its bytes. A MIME type is plain when
  it consists of printable ASCII characters and has no comma.\<close>

definition mime_plain :: "string \<Rightarrow> bool" where
  "mime_plain m = (list_all printable m \<and> CHR '','' \<notin> set m)"

definition well_formed :: "(string \<times> 8 word list) option \<Rightarrow> bool" where
  "well_formed img = (case img of None \<Rightarrow> True | Some (m, bs) \<Rightarrow> mime_plain m)"

text \<open>The value of a key of the response: absent, or the data URL of the image.\<close>

definition embedded :: "(string \<times> 8 word list) option \<Rightarrow> string option" where
  "embedded img = (case img of None \<Rightarrow> None | Some (m, bs) \<Rightarrow> Some (data_url m bs))"

definition expected_preview :: "(string \<times> 8 word list) option \<Rightarrow> element list" where
  "expected_preview img = (case img of None \<Rightarrow> [] | Some (m, bs) \<Rightarrow> [Preview (data_url m bs)])"

definition expected_button :: "string \<Rightarrow> (string \<times> 8 word list) option \<Rightarrow> string \<Rightarrow> element list" where
  "expected_button label img filename =
     (case img of
        None \<Rightarrow> []
      | Some (m, bs) \<Rightarrow>
          [DownloadLink label \<lparr>blob_bytes = bs, blob_type = map ascii_lower m\<rparr> filename])"

section \<open>Sample inputs\<close>

definition sample_file :: jsfile where
  "sample_file = \<lparr>file_name = ''photo.png'', file_type = ''image/png'', file_bytes = [137, 80, 78, 71]\<rparr>"

definition ready :: app_state where
  "ready = App_initial\<lparr>file' := Some sample_file\<rparr>"

text \<open>Services for the examples: one that cannot be reached, one that answers 200
  with a body that is not JSON, and one that answers 500.\<close>

definition offline :: "request \<Rightarrow> fetch_outcome" where
  "offline req = Rejected (Some ''Failed to fetch'')"

definition garbled :: "request \<Rightarrow> fetch_outcome" where
  "garbled req = Response 200 (Unparsable (Some ''Unexpected end of JSON input''))"

definition failing :: "request \<Rightarrow> fetch_outcome" where
  "failing req = Response 500 (Parsed None)"

text \<open>A decoder, stages and an encoder for the examples: the image is its bytes, of
  size 100 by 50, and no stage changes it.\<close>

definition sample_decode :: "8 word list \<Rightarrow> pipeline_error + 8 word list" where
  "sample_decode bs = (if bs = [] then Inl DecodeError else Inr bs)"

definition sample_size :: "8 word list \<Rightarrow> int \<times> int" where
  "sample_size img = (100, 50)"

definition sample_stages :: "8 word list \<Rightarrow> EnhancementOptions \<Rightarrow> int \<times> int \<Rightarrow> 8 word list" where
  "sample_stages img opts target = img"

definition sample_encode :: "8 word list \<Rightarrow> pipeline_error + 8 word list" where
  "sample_encode img = Inr img"

section \<open>The invariant of a mounted component\<close>

text \<open>At most one request is in flight, \<open>busy\<close> holds exactly while one is, and every
  request issued carries a file.\<close>

definition steady :: "system \<Rightarrow> bool" where
  "steady t =
     (length (in_flight t) \<le> 1 \<and> busy (ui t) = (in_flight t \<noteq> []) \<and> list_all has_file (issued t))"

section \<open>Base64 decoding inverts encoding\<close>

lemma code_from_code: "n < 256 \<Longrightarrow> code (from_code n) = n"
  by (simp add: code_def from_code_def)

lemma byte_bound: "unat (b :: 8 word) < 256"
  using unsigned_less [of b, where 'a = nat] by simp

lemma of_nat_code_from_code: "(of_nat (code (from_code (unat b))) :: 8 word) = b"
  by (simp add: code_from_code byte_bound)

lemma code_b64_char:
  "n < 64 \<Longrightarrow> code (b64_char n) =
     (if n < 26 then 65 + n else if n < 52 then 71 + n else if n < 62 then n - 4
      else if n = 62 then 43 else 47)"
  by (simp add: b64_char_def code_from_code)

lemma b64_value_char: "n < 64 \<Longrightarrow> b64_value (b64_char n) = Some n"
  by (auto simp: b64_value_def code_b64_char Let_def)

lemma b64_char_plain:
  assumes "n < 64"
  shows "\<not> ascii_whitespace (b64_char n)" and "b64_char n \<noteq> CHR ''=''" and "b64_char n \<noteq> CHR '',''"
proof -
  show "\<not> ascii_whitespace (b64_char n)"
    using assms by (auto simp: ascii_whitespace_def code_b64_char)
  have "code (b64_char n) \<noteq> 61" using assms by (auto simp: code_b64_char)
  then show "b64_char n \<noteq> CHR ''=''" by (auto simp: code_def)
  have "code (b64_char n) \<noteq> 44" using assms by (auto simp: code_b64_char)
  then show "b64_char n \<noteq> CHR '',''" by (auto simp: code_def)
qed

lemma sextets_lt: "\<forall>b \<in> set bs. b < 256 \<Longrightarrow> \<forall>s \<in> set (sextets bs). s < 64"
  by (induction bs rule: sextets.induct) auto

lemma sextets_bytes_lt: "\<forall>s \<in> set (sextets (map unat (bs :: 8 word list))). s < 64"
  by (rule sextets_lt) (auto simp: byte_bound)

lemma length_sextets:
  "length (sextets bs) =
     4 * (length bs div 3) + (if length bs mod 3 = 0 then 0 else length bs mod 3 + 1)"
  by (induction bs rule: sextets.induct) auto

lemma octets_sextets: "\<forall>b \<in> set bs. b < 256 \<Longrightarrow> octets (sextets bs) = map from_code bs"
proof (induction bs rule: sextets.induct)
  case (4 a b c bs)
  have "a div 4 * 4 + ((a mod 4) * 16 + b div 16) div 16 = a"
    using 4(2) by auto
  moreover have "(((a mod 4) * 16 + b div 16) mod 16) * 16 + ((b mod 16) * 4 + c div 64) div 4 = b"
    using 4(2) by auto
  moreover have "(((b mod 16) * 4 + c div 64) mod 4) * 64 + c mod 64 = c"
    using 4(2) by auto
  ultimately show ?case using 4 by simp
qed auto

lemma strip_padding_base64:
  assumes "cs = [] \<or> last cs \<noteq> CHR ''=''" and "p \<le> 2"
  shows "strip_padding (cs @ replicate p CHR ''='') = cs"
proof -
  from assms(2) consider "p = 0" | "p = 1" | "p = 2" by linarith
  then show ?thesis
  proof cases
    case 1
    show ?thesis
    proof (cases cs rule: rev_cases)
      case Nil
      then show ?thesis using 1 by (simp add: strip_padding_def)
    next
      case (snoc ys y)
      then show ?thesis
        using 1 assms(1) by (cases ys rule: rev_cases) (auto simp: strip_padding_def)
    qed
  next
    case 2
    show ?thesis
    proof (cases cs rule: rev_cases)
      case Nil
      then show ?thesis using 2 by (simp add: strip_padding_def)
    next
      case (snoc ys y)
      then show ?thesis using 2 assms(1) by (auto simp: strip_padding_def)
    qed
  next
    case 3
    then show ?thesis by (simp add: strip_padding_def numeral_2_eq_2)
  qed
qed

lemma atob_base64: "atob (base64 bs) = Inr (map (\<lambda>b. from_code (unat b)) bs)"
proof -
  let ?ns = "map unat bs"
  let ?cs = "map b64_char (sextets ?ns)"
  let ?p = "padding (length bs)"
  have bytes: "\<forall>b \<in> set ?ns. b < 256"
    by (auto simp: byte_bound)
  have six: "\<forall>s \<in> set (sextets ?ns). s < 64"
    by (rule sextets_bytes_lt)
  have eq_ws: "\<not> ascii_whitespace CHR ''=''"
    by (simp add: ascii_whitespace_def code_def)
  have "\<forall>c \<in> set ?cs. \<not> ascii_whitespace c"
    using six b64_char_plain(1) by auto
  then have nows: "filter (\<lambda>c. \<not> ascii_whitespace c) (base64 bs) = base64 bs"
    using eq_ws by (auto simp: base64_def filter_id_conv)
  have len: "length (base64 bs) mod 4 = 0"
    by (simp add: base64_def length_sextets padding_def)
  have noeq: "\<forall>c \<in> set ?cs. c \<noteq> CHR ''=''"
    using six b64_char_plain(2) by auto
  have lastc: "?cs = [] \<or> last ?cs \<noteq> CHR ''=''"
  proof (cases "?cs = []")
    case False
    then have "last ?cs \<in> set ?cs" by (rule last_in_set)
    then show ?thesis using noeq by blast
  qed simp
  have p2: "?p \<le> 2"
    by (simp add: padding_def)
  have strip: "strip_padding (base64 bs) = ?cs"
    unfolding base64_def using strip_padding_base64 [OF lastc p2] .
  have len1: "length ?cs mod 4 \<noteq> 1"
    by (simp add: length_sextets; presburger)
  have valid: "\<not> list_ex (\<lambda>c. b64_value c = None) ?cs"
    using six by (auto simp: list_ex_iff b64_value_char)
  have vals: "map (\<lambda>c. the (b64_value c)) ?cs = sextets ?ns"
    using six by (simp add: b64_value_char map_idI)
  show ?thesis
    unfolding atob_def Let_def nows
    using len strip len1 valid vals octets_sextets [OF bytes]
    by (simp add: comp_def)
qed

section \<open>Splitting and matching a data URL\<close>

lemma split_no_sep: "sep \<notin> set s \<Longrightarrow> split sep s = [s]"
  by (induction s) auto

lemma split_first: "sep \<notin> set h \<Longrightarrow> split sep (h @ sep # r) = h # split sep r"
  by (induction h) auto

lemma base64_no_comma: "CHR '','' \<notin> set (base64 bs)"
proof -
  have "\<forall>c \<in> set (map b64_char (sextets (map unat bs))). c \<noteq> CHR '',''"
    using sextets_bytes_lt [of bs] b64_char_plain(3) by auto
  then show ?thesis
    by (auto simp: base64_def)
qed

lemma greedy_upto_short: "length s < length pat \<Longrightarrow> greedy_upto pat s = None"
  by (induction s) (auto dest: prefix_length_le)

lemma greedy_upto_self: "pat \<noteq> [] \<Longrightarrow> greedy_upto pat pat = Some []"
  by (cases pat) (simp_all add: greedy_upto_short)

lemma greedy_upto_append:
  "pat \<noteq> [] \<Longrightarrow> \<forall>c \<in> set m. \<not> line_terminator c \<Longrightarrow> greedy_upto pat (m @ pat) = Some m"
  by (induction m) (simp_all add: greedy_upto_self)

lemma mime_match_header:
  assumes "\<forall>c \<in> set m. \<not> line_terminator c"
  shows "mime_match (''data:'' @ m @ '';base64'') = Some m"
  using greedy_upto_append [OF _ assms, of "'';base64''"] by simp

lemma printable_not_terminator: "printable c \<Longrightarrow> \<not> line_terminator c"
  by (auto simp: printable_def line_terminator_def)

lemma dataUrlToBlob_data_url:
  assumes "CHR '','' \<notin> set m"
  shows "dataUrlToBlob (data_url m bs) =
           Inr (new_Blob bs (case mime_match (''data:'' @ m @ '';base64'') of
                               Some g \<Rightarrow> g | None \<Rightarrow> ''application/octet-stream''))"
proof -
  have h: "CHR '','' \<notin> set (''data:'' @ m @ '';base64'')"
    using assms by simp
  have "data_url m bs = (''data:'' @ m @ '';base64'') @ CHR '','' # base64 bs"
    by (simp add: data_url_def)
  then have parts: "split CHR '','' (data_url m bs) = (''data:'' @ m @ '';base64'') # [base64 bs]"
    using split_first [OF h, of "base64 bs"] split_no_sep [OF base64_no_comma, of bs] by simp
  show ?thesis
    unfolding dataUrlToBlob_def Let_def parts
    by (simp add: atob_base64 comp_def of_nat_code_from_code)
qed

lemma dataUrlToBlob_plain_mime:
  assumes "list_all printable m" and "CHR '','' \<notin> set m"
  shows "dataUrlToBlob (data_url m bs) = Inr \<lparr>blob_bytes = bs, blob_type = map ascii_lower m\<rparr>"
proof -
  have "\<forall>c \<in> set m. \<not> line_terminator c"
    using assms(1) by (auto simp: list_all_iff printable_not_terminator)
  then have "mime_match (''data:'' @ m @ '';base64'') = Some m"
    by (rule mime_match_header)
  then show ?thesis
    using assms by (simp add: dataUrlToBlob_data_url new_Blob_def)
qed

lemma dataUrlToBlob_no_match:
  assumes "mime_match (hd (split CHR '','' u)) = None" and "dataUrlToBlob u = Inr b"
  shows "blob_type b = ''application/octet-stream''"
proof -
  have "list_all printable ''application/octet-stream''"
    by (simp add: printable_def code_def)
  moreover have "map ascii_lower ''application/octet-stream'' = ''application/octet-stream''"
    by (simp add: ascii_lower_def code_def)
  ultimately show ?thesis
    using assms by (auto simp: dataUrlToBlob_def Let_def new_Blob_def split: sum.splits)
qed

lemma sample_base64: "base64 [72, 105, 33] = ''SGkh''"
  by code_simp

lemma sample_base64_short: "base64 [72, 105] = ''SGk=''"
  by code_simp

lemma data_url_nonempty: "data_url m bs \<noteq> []"
  by (simp add: data_url_def)

lemma DownloadButton_embedded:
  "well_formed img \<Longrightarrow>
     DownloadButton label (embedded img) filename = Inr (expected_button label img filename)"
  by (cases img)
     (auto simp: well_formed_def embedded_def expected_button_def DownloadButton_def mime_plain_def
        data_url_nonempty dataUrlToBlob_plain_mime)

section \<open>Outcomes of a request\<close>

lemma message_or_unknown_nonempty: "message_or_unknown m \<noteq> []"
  by (simp add: message_or_unknown_def split: option.splits)

lemma settle_rejected:
  "onSubmit_settle (Rejected m) s = s\<lparr>error := Some (message_or_unknown m), busy := False\<rparr>"
  by (simp add: onSubmit_settle_def try_block_def)

lemma settle_not_ok:
  "\<not> res_ok status \<Longrightarrow>
     onSubmit_settle (Response status body) s =
       s\<lparr>error := Some (''API error: '' @ string_of_nat status), busy := False\<rparr>"
  by (simp add: onSubmit_settle_def try_block_def message_or_unknown_def)

lemma settle_unparsable:
  "res_ok status \<Longrightarrow>
     onSubmit_settle (Response status (Unparsable m)) s =
       s\<lparr>error := Some (message_or_unknown m), busy := False\<rparr>"
  by (simp add: onSubmit_settle_def try_block_def)

lemma settle_parsed:
  "res_ok status \<Longrightarrow>
     onSubmit_settle (Response status (Parsed data)) s = s\<lparr>result := data, busy := False\<rparr>"
  by (simp add: onSubmit_settle_def try_block_def)

lemma onSubmit_issued:
  assumes "onSubmit env service s = (final, [req])"
  shows "final = onSubmit_settle (service req) (s\<lparr>busy := True, error := None, result := None\<rparr>)"
  using assms by (auto simp: onSubmit_def onSubmit_sync_def split: option.splits)

section \<open>The invariant is kept\<close>

lemma steady_mounted: "steady mounted"
  by (simp add: steady_def mounted_def App_initial_def)

lemma html_number_empty: "html_number [] = None"
  by (simp add: html_number_def)

lemma constraints_met_initial: "constraints_met (App_initial\<lparr>file' := f\<rparr>)"
  by (simp add: constraints_met_def App_initial_def text_input_ok_def number_input_ok_def
      number_ok_def html_number_empty)

lemma build_form_file: "\<exists>rest. build_form s f = (''file'', FileValue f) # rest"
  by (simp add: build_form_def form_append_def Let_def)

lemma has_file_request:
  "has_file \<lparr>req_method = m, req_url = u, req_body = build_form s f\<rparr>"
proof -
  obtain rest where "build_form s f = (''file'', FileValue f) # rest"
    using build_form_file by blast
  then show ?thesis
    by (simp add: has_file_def)
qed

lemma busy_settle: "\<not> busy (onSubmit_settle out s)"
  by (simp add: onSubmit_settle_def Let_def split: sum.splits)

lemma steady_handle: "steady t \<Longrightarrow> steady (handle env valid e t)"
proof (cases e)
  case Submit
  assume "steady t"
  then show ?thesis
    using Submit
    by (auto simp: steady_def request_submit_def submit_disabled_def canSubmit_def
        onSubmit_sync_def has_file_request split: option.splits)
next
  case (Settle out)
  assume "steady t"
  then show ?thesis
    using Settle by (cases "in_flight t") (auto simp: steady_def busy_settle)
qed (auto simp: steady_def)

lemma steady_run: "steady t \<Longrightarrow> steady (run env valid es t)"
  by (induction es arbitrary: t) (simp_all add: steady_handle)

section \<open>Out-of-range input\<close>

lemma options_of_form_error: "options_of_form form = Inl e \<Longrightarrow> e = InvalidOptionError"
  by (auto simp: options_of_form_def float_field_def int_field_def
      split: sum.splits option.splits form_value.splits jsnum.splits if_splits)

lemma options_of_form_fields:
  assumes "options_of_form form = Inr opts"
  shows "float_field form ''scale'' 2.0 = Inr (opt_scale opts)"
    and "int_field form ''width'' = Inr (targetWidth opts)"
    and "int_field form ''height'' = Inr (targetHeight opts)"
    and "\<exists>r. int_field form ''denoise_luma'' = Inr r \<and>
              opt_denoiseLuma opts = (case r of None \<Rightarrow> 5 | Some n \<Rightarrow> n)"
    and "\<exists>r. int_field form ''denoise_color'' = Inr r \<and>
              opt_denoiseColor opts = (case r of None \<Rightarrow> 5 | Some n \<Rightarrow> n)"
    and "float_field form ''clahe_clip'' 2.0 = Inr (opt_claheClip opts)"
    and "float_field form ''sharpen_amount'' 0.6 = Inr (opt_sharpenAmount opts)"
    and "float_field form ''sharpen_sigma'' 1.2 = Inr (opt_sharpenSigma opts)"
    and "float_field form ''saturation'' 1.05 = Inr (opt_saturation opts)"
  using assms by (auto simp: options_of_form_def split: sum.splits)

lemma float_field_value:
  "float_field form name d = Inr q \<Longrightarrow> map_of form name = Some (StringOf x) \<Longrightarrow> x = Num q"
  by (auto simp: float_field_def split: jsnum.splits)

lemma int_field_value:
  "int_field form name = Inr r \<Longrightarrow> map_of form name = Some (StringOf x) \<Longrightarrow>
     \<exists>n. r = Some n \<and> x = Num (of_int n)"
  by (auto simp: int_field_def split: jsnum.splits if_splits)

lemma int_field_absent: "map_of form name = None \<Longrightarrow> int_field form name = Inr None"
  by (simp add: int_field_def)

lemma build_form_eq:
  "build_form s f =
     (''file'', FileValue f)
     # (if width s = [] \<and> height s = [] then [(''scale'', StringOf (scale s))]
        else (if width s \<noteq> [] then [(''width'', StringOf (parseInt (width s)))] else [])
             @ (if height s \<noteq> [] then [(''height'', StringOf (parseInt (height s)))] else []))
     @ [(''denoise_luma'', StringOf (denoiseLuma s)),
        (''denoise_color'', StringOf (denoiseColor s)),
        (''clahe_clip'', StringOf (claheClip s)),
        (''sharpen_amount'', StringOf (sharpenAmount s)),
        (''sharpen_sigma'', StringOf (sharpenSigma s)),
        (''saturation'', StringOf (saturation s))]"
  by (simp add: build_form_def form_append_def)

lemma form_options:
  "map_of (build_form s f) ''denoise_luma'' = Some (StringOf (denoiseLuma s))"
  "map_of (build_form s f) ''denoise_color'' = Some (StringOf (denoiseColor s))"
  "map_of (build_form s f) ''clahe_clip'' = Some (StringOf (claheClip s))"
  "map_of (build_form s f) ''sharpen_amount'' = Some (StringOf (sharpenAmount s))"
  "map_of (build_form s f) ''sharpen_sigma'' = Some (StringOf (sharpenSigma s))"
  "map_of (build_form s f) ''saturation'' = Some (StringOf (saturation s))"
  by (simp_all add: build_form_eq)

lemma form_geometry:
  "map_of (build_form s f) ''scale'' =
     (if width s = [] \<and> height s = [] then Some (StringOf (scale s)) else None)"
  "map_of (build_form s f) ''width'' =
     (if width s = [] then None else Some (StringOf (parseInt (width s))))"
  "map_of (build_form s f) ''height'' =
     (if height s = [] then None else Some (StringOf (parseInt (height s))))"
  by (simp_all add: build_form_eq)


lemma enhance_invalid:
  "\<not> valid_options opts \<Longrightarrow> enhance decode size_of stages encode bytes opts = Inl InvalidOptionError"
  by (simp add: enhance_def)

lemma api_enhance_only_valid:
  assumes "\<not> (\<exists>opts. options_of_form form = Inr opts \<and> valid_options opts)"
  shows "api_enhance decode size_of stages encode form = Inl InvalidOptionError"
proof (cases "options_of_form form")
  case (Inl e)
  then show ?thesis
    using options_of_form_error [OF Inl] by (simp add: api_enhance_def)
next
  case (Inr opts)
  then have "\<not> valid_options opts"
    using assms by simp
  then show ?thesis
    using Inr by (simp add: api_enhance_def enhance_invalid)
qed

lemma accepted_options:
  assumes "api_enhance decode size_of stages encode form = Inr out"
  shows "\<exists>opts. options_of_form form = Inr opts \<and> valid_options opts"
  using assms api_enhance_only_valid [of form decode size_of stages encode] by auto

lemma valid_form_in_range:
  assumes o: "options_of_form (build_form s f) = Inr opts" and v: "valid_options opts"
  shows "(case denoiseLuma s of NaN \<Rightarrow> False | Num q \<Rightarrow> 0 \<le> q \<and> q \<le> 20)"
    and "(case denoiseColor s of NaN \<Rightarrow> False | Num q \<Rightarrow> 0 \<le> q \<and> q \<le> 20)"
    and "(case claheClip s of NaN \<Rightarrow> False | Num q \<Rightarrow> 0.5 \<le> q \<and> q \<le> 5)"
    and "(case sharpenAmount s of NaN \<Rightarrow> False | Num q \<Rightarrow> 0 \<le> q \<and> q \<le> 2)"
    and "(case sharpenSigma s of NaN \<Rightarrow> False | Num q \<Rightarrow> 0.1 \<le> q \<and> q \<le> 3)"
    and "(case saturation s of NaN \<Rightarrow> False | Num q \<Rightarrow> 0 \<le> q \<and> q \<le> 2)"
    and "(if width s = [] \<and> height s = [] then (case scale s of NaN \<Rightarrow> False | Num q \<Rightarrow> 0 < q)
          else True)"
    and "(if width s = [] then True
          else (case parseInt (width s) of NaN \<Rightarrow> False | Num q \<Rightarrow> 1 \<le> q))"
    and "(if height s = [] then True
          else (case parseInt (height s) of NaN \<Rightarrow> False | Num q \<Rightarrow> 1 \<le> q))"
proof -
  note fields = options_of_form_fields [OF o]
  obtain r where r: "int_field (build_form s f) ''denoise_luma'' = Inr r"
      "opt_denoiseLuma opts = (case r of None \<Rightarrow> 5 | Some n \<Rightarrow> n)"
    using fields(4) by blast
  obtain n where "r = Some n" "denoiseLuma s = Num (of_int n)"
    using int_field_value [OF r(1) form_options(1)] by blast
  then show "(case denoiseLuma s of NaN \<Rightarrow> False | Num q \<Rightarrow> 0 \<le> q \<and> q \<le> 20)"
    using r(2) v by (simp add: valid_options_def)
  obtain r' where r': "int_field (build_form s f) ''denoise_color'' = Inr r'"
      "opt_denoiseColor opts = (case r' of None \<Rightarrow> 5 | Some n \<Rightarrow> n)"
    using fields(5) by blast
  obtain n' where "r' = Some n'" "denoiseColor s = Num (of_int n')"
    using int_field_value [OF r'(1) form_options(2)] by blast
  then show "(case denoiseColor s of NaN \<Rightarrow> False | Num q \<Rightarrow> 0 \<le> q \<and> q \<le> 20)"
    using r'(2) v by (simp add: valid_options_def)
  show "(case claheClip s of NaN \<Rightarrow> False | Num q \<Rightarrow> 0.5 \<le> q \<and> q \<le> 5)"
    using float_field_value [OF fields(6) form_options(3)] v by (simp add: valid_options_def)
  show "(case sharpenAmount s of NaN \<Rightarrow> False | Num q \<Rightarrow> 0 \<le> q \<and> q \<le> 2)"
    using float_field_value [OF fields(7) form_options(4)] v by (simp add: valid_options_def)
  show "(case sharpenSigma s of NaN \<Rightarrow> False | Num q \<Rightarrow> 0.1 \<le> q \<and> q \<le> 3)"
    using float_field_value [OF fields(8) form_options(5)] v by (simp add: valid_options_def)
  show "(case saturation s of NaN \<Rightarrow> False | Num q \<Rightarrow> 0 \<le> q \<and> q \<le> 2)"
    using float_field_value [OF fields(9) form_options(6)] v by (simp add: valid_options_def)
  have w: "width s \<noteq> [] \<Longrightarrow> \<exists>n. targetWidth opts = Some n \<and> parseInt (width s) = Num (of_int n)"
    using int_field_value [OF fields(2), of "parseInt (width s)"] by (simp add: form_geometry)
  have h: "height s \<noteq> [] \<Longrightarrow> \<exists>n. targetHeight opts = Some n \<and> parseInt (height s) = Num (of_int n)"
    using int_field_value [OF fields(3), of "parseInt (height s)"] by (simp add: form_geometry)
  show "(if width s = [] then True
          else (case parseInt (width s) of NaN \<Rightarrow> False | Num q \<Rightarrow> 1 \<le> q))"
    using w v by (auto simp: valid_options_def)
  show "(if height s = [] then True
          else (case parseInt (height s) of NaN \<Rightarrow> False | Num q \<Rightarrow> 1 \<le> q))"
    using h v by (auto simp: valid_options_def)
  show "(if width s = [] \<and> height s = [] then (case scale s of NaN \<Rightarrow> False | Num q \<Rightarrow> 0 < q)
          else True)"
  proof (cases "width s = [] \<and> height s = []")
    case True
    then have "targetWidth opts = None" "targetHeight opts = None"
      using fields(2,3) by (simp_all add: form_geometry int_field_absent)
    moreover have "scale s = Num (opt_scale opts)"
      using float_field_value [OF fields(1), of "scale s"] True by (simp add: form_geometry)
    ultimately show ?thesis
      using True v by (simp add: valid_options_def)
  qed auto
qed


lemma parseInt_zero: "parseInt ''0'' = Num 0"
  by code_simp

lemma html_number_zero: "html_number ''0'' = Some 0"
  by code_simp

lemma width_zero_blocked: "width s = ''0'' \<Longrightarrow> \<not> constraints_met s"
  by (simp add: constraints_met_def text_input_ok_def number_ok_def html_number_zero)

lemma api_enhance_rejects:
  assumes "width s = ''0'' \<or> (width s = [] \<and> height s = [] \<and> scale s = Num (- 1))"
  shows "api_enhance decode size_of stages encode (build_form s f) = Inl InvalidOptionError"
proof (rule api_enhance_only_valid, rule notI)
  assume "\<exists>opts. options_of_form (build_form s f) = Inr opts \<and> valid_options opts"
  then obtain opts where o: "options_of_form (build_form s f) = Inr opts" and v: "valid_options opts"
    by blast
  note range = valid_form_in_range [OF o v]
  show False
    using assms
  proof
    assume "width s = ''0''"
    then show False using range(8) by (simp add: parseInt_zero)
  next
    assume "width s = [] \<and> height s = [] \<and> scale s = Num (- 1)"
    then show False using range(7) by simp
  qed
qed

lemma submitted_within_input_ranges:
  assumes "snd (request_submit env constraints_met s) = Some req"
  shows "text_input_ok (Some 1) None 1 1 (width s) \<and>
         text_input_ok (Some 1) None 1 1 (height s) \<and>
         number_input_ok (Some 0) (Some 20) 1 0 (denoiseLuma s) \<and>
         number_input_ok (Some 0) (Some 20) 1 0 (denoiseColor s) \<and>
         number_input_ok (Some 0.5) (Some 5) 0.1 0.5 (claheClip s) \<and>
         number_input_ok (Some 0) (Some 2) 0.1 0 (sharpenAmount s) \<and>
         number_input_ok (Some 0.1) (Some 3) 0.1 0.1 (sharpenSigma s) \<and>
         number_input_ok (Some 0) (Some 2) 0.01 0 (saturation s)"
  using assms by (auto simp: request_submit_def constraints_met_def split: if_splits)

lemma options_of_ready:
  "options_of_form (build_form (ready\<lparr>denoiseLuma := Num x\<rparr>) sample_file) =
     (if x = of_int \<lfloor>x\<rfloor> then Inr (default_options\<lparr>opt_denoiseLuma := \<lfloor>x\<rfloor>\<rparr>)
      else Inl InvalidOptionError)"
  by (simp add: build_form_eq options_of_form_def float_field_def int_field_def ready_def
      App_initial_def default_options_def)

lemma valid_default: "valid_options default_options"
  by (simp add: valid_options_def default_options_def)

lemma ready_accepted:
  "api_enhance sample_decode sample_size sample_stages sample_encode (build_form ready sample_file) =
     Inr [137, 80, 78, 71]"
proof -
  have "ready = ready\<lparr>denoiseLuma := Num 5\<rparr>"
    by (simp add: ready_def App_initial_def)
  then have o: "options_of_form (build_form ready sample_file) = Inr default_options"
    using options_of_ready [of 5] by (simp add: default_options_def)
  have f: "map_of (build_form ready sample_file) ''file'' = Some (FileValue sample_file)"
    by (simp add: build_form_eq)
  have p: "plan 100 50 default_options = Inr (200, 100)"
    by (simp add: plan_def target_size_def default_options_def)
  have "api_enhance sample_decode sample_size sample_stages sample_encode
          (build_form ready sample_file) =
        enhance sample_decode sample_size sample_stages sample_encode (file_bytes sample_file)
          default_options"
    by (simp add: api_enhance_def o f)
  also have "\<dots> = Inr [137, 80, 78, 71]"
    by (simp add: enhance_def valid_default sample_decode_def sample_size_def sample_stages_def
        sample_encode_def sample_file_def p)
  finally show ?thesis .
qed

lemma parseInt_samples: "parseInt ''200'' = Num 200"
  by code_simp

section \<open>The claims\<close>

subsection \<open>C1: the scale field and the target fields exclude each other\<close>

text \<open>C1. For every submission that sends a request: if the width or the height
  field of the form is not empty, the multipart form of the request has no scale
  field at all; if both are empty, it has the scale field, holding the string of the
  scale. The scale input is disabled exactly when the scale is not sent.\<close>

theorem scale_field_ignored:
  assumes "snd (onSubmit_sync env s) = Some req"
  shows "(width s \<noteq> [] \<or> height s \<noteq> [] \<longrightarrow> ''scale'' \<notin> fst ` set (req_body req)) \<and>
         (width s = [] \<and> height s = [] \<longrightarrow> (''scale'', StringOf (scale s)) \<in> set (req_body req)) \<and>
         scale_disabled s = (''scale'' \<notin> fst ` set (req_body req))"
  using assms
  by (auto simp: onSubmit_sync_def build_form_def form_append_def scale_disabled_def Let_def
      split: option.splits if_splits)

theorem scale_field_ignored_witness:
  "snd (onSubmit_sync None (ready\<lparr>width := ''200''\<rparr>)) =
     Some \<lparr>req_method = ''POST'', req_url = ''http://localhost:8000/api/enhance'',
           req_body = [(''file'', FileValue sample_file), (''width'', StringOf (Num 200)),
                       (''denoise_luma'', StringOf (Num 5)), (''denoise_color'', StringOf (Num 5)),
                       (''clahe_clip'', StringOf (Num 2)), (''sharpen_amount'', StringOf (Num 0.6)),
                       (''sharpen_sigma'', StringOf (Num 1.2)), (''saturation'', StringOf (Num 1.05))]\<rparr> \<and>
   width (ready\<lparr>width := ''200''\<rparr>) \<noteq> [] \<and> scale_disabled (ready\<lparr>width := ''200''\<rparr>) \<and>
   snd (onSubmit_sync None ready) =
     Some \<lparr>req_method = ''POST'', req_url = ''http://localhost:8000/api/enhance'',
           req_body = [(''file'', FileValue sample_file), (''scale'', StringOf (Num 2)),
                       (''denoise_luma'', StringOf (Num 5)), (''denoise_color'', StringOf (Num 5)),
                       (''clahe_clip'', StringOf (Num 2)), (''sharpen_amount'', StringOf (Num 0.6)),
                       (''sharpen_sigma'', StringOf (Num 1.2)), (''saturation'', StringOf (Num 1.05))]\<rparr> \<and>
   width ready = [] \<and> height ready = [] \<and> \<not> scale_disabled ready"
proof -
  have r1: "snd (onSubmit_sync None (ready\<lparr>width := ''200''\<rparr>)) =
     Some \<lparr>req_method = ''POST'', req_url = ''http://localhost:8000/api/enhance'',
           req_body = [(''file'', FileValue sample_file), (''width'', StringOf (Num 200)),
                       (''denoise_luma'', StringOf (Num 5)), (''denoise_color'', StringOf (Num 5)),
                       (''clahe_clip'', StringOf (Num 2)), (''sharpen_amount'', StringOf (Num 0.6)),
                       (''sharpen_sigma'', StringOf (Num 1.2)), (''saturation'', StringOf (Num 1.05))]\<rparr>"
    by (simp add: onSubmit_sync_def build_form_def form_append_def ready_def App_initial_def
        API_BASE_def parseInt_samples)
  have r2: "snd (onSubmit_sync None ready) =
     Some \<lparr>req_method = ''POST'', req_url = ''http://localhost:8000/api/enhance'',
           req_body = [(''file'', FileValue sample_file), (''scale'', StringOf (Num 2)),
                       (''denoise_luma'', StringOf (Num 5)), (''denoise_color'', StringOf (Num 5)),
                       (''clahe_clip'', StringOf (Num 2)), (''sharpen_amount'', StringOf (Num 0.6)),
                       (''sharpen_sigma'', StringOf (Num 1.2)), (''saturation'', StringOf (Num 1.05))]\<rparr>"
    by (simp add: onSubmit_sync_def build_form_def form_append_def ready_def App_initial_def
        API_BASE_def)
  have s: "width ready = []" "height ready = []"
    by (simp_all add: ready_def App_initial_def)
  show ?thesis
    using scale_field_ignored [OF r1] scale_field_ignored [OF r2] r1 r2 s
    by simp
qed

subsection \<open>C2: the request of a submission\<close>

text \<open>C2, as the code has it. Every submission made with a chosen file issues exactly
  one request: a POST to API_BASE + /api/enhance whose form holds, in this order, the
  field file with the chosen file; then either scale (when width and height are both
  empty) or width and/or height, each present when not empty and holding the string
  of its parsed integer; then denoise_luma, denoise_color, clahe_clip, sharpen_amount,
  sharpen_sigma and saturation, each the string of the number in the state. The names
  are those of the README's API reference, not the names of section 3 of the
  specification.\<close>

theorem request_of_submission:
  assumes "file' s = Some f"
  shows "snd (onSubmit env service s) =
     [\<lparr>req_method = ''POST'', req_url = API_BASE env @ ''/api/enhance'',
       req_body =
         (''file'', FileValue f)
         # (if width s = [] \<and> height s = [] then [(''scale'', StringOf (scale s))]
            else (if width s \<noteq> [] then [(''width'', StringOf (parseInt (width s)))] else [])
                 @ (if height s \<noteq> [] then [(''height'', StringOf (parseInt (height s)))] else []))
         @ [(''denoise_luma'', StringOf (denoiseLuma s)),
            (''denoise_color'', StringOf (denoiseColor s)),
            (''clahe_clip'', StringOf (claheClip s)),
            (''sharpen_amount'', StringOf (sharpenAmount s)),
            (''sharpen_sigma'', StringOf (sharpenSigma s)),
            (''saturation'', StringOf (saturation s))]\<rparr>]"
  using assms
  by (simp add: onSubmit_def onSubmit_sync_def build_form_def form_append_def)

theorem request_of_submission_witness:
  "file' (ready\<lparr>height := ''200''\<rparr>) = Some sample_file \<and>
   snd (onSubmit None offline (ready\<lparr>height := ''200''\<rparr>)) =
     [\<lparr>req_method = ''POST'', req_url = ''http://localhost:8000/api/enhance'',
       req_body = [(''file'', FileValue sample_file), (''height'', StringOf (Num 200)),
                   (''denoise_luma'', StringOf (Num 5)), (''denoise_color'', StringOf (Num 5)),
                   (''clahe_clip'', StringOf (Num 2)), (''sharpen_amount'', StringOf (Num 0.6)),
                   (''sharpen_sigma'', StringOf (Num 1.2)), (''saturation'', StringOf (Num 1.05))]\<rparr>]"
proof -
  have f: "file' (ready\<lparr>height := ''200''\<rparr>) = Some sample_file"
    by (simp add: ready_def)
  show ?thesis
    using request_of_submission [OF f, of None offline] f
    by (simp add: ready_def App_initial_def API_BASE_def parseInt_samples)
qed

text \<open>C2 as stated fails: with the initial values and a file chosen, the denoise luma
  strength is sent under the name denoise_luma, which is not a name of section 3, and
  no field is named denoiseLuma.\<close>

theorem field_names_counterexample:
  "snd (onSubmit None offline ready) =
     [\<lparr>req_method = ''POST'', req_url = ''http://localhost:8000/api/enhance'',
       req_body = [(''file'', FileValue sample_file), (''scale'', StringOf (Num 2)),
                   (''denoise_luma'', StringOf (Num 5)), (''denoise_color'', StringOf (Num 5)),
                   (''clahe_clip'', StringOf (Num 2)), (''sharpen_amount'', StringOf (Num 0.6)),
                   (''sharpen_sigma'', StringOf (Num 1.2)), (''saturation'', StringOf (Num 1.05))]\<rparr>] \<and>
   ''denoise_luma'' \<notin> set spec_option_names \<and>
   ''denoiseLuma'' \<notin> set [''file'', ''scale'', ''denoise_luma'', ''denoise_color'', ''clahe_clip'',
                           ''sharpen_amount'', ''sharpen_sigma'', ''saturation'']"
  by (simp add: onSubmit_def onSubmit_sync_def build_form_def form_append_def ready_def
      App_initial_def API_BASE_def spec_option_names_def)

subsection \<open>C3: the Geometry Planner\<close>

text \<open>C3. For every source size with positive sides and all options, the planned
  target is: both target sides verbatim when both are set; with only the width set,
  the height round(targetWidth * sourceH / sourceW); with only the height set, the
  width round(targetHeight * sourceW / sourceH); with neither set, the sides scaled
  and rounded. \<open>plan\<close> fails with InvalidGeometryError exactly when a side of the
  target is below 1 and returns the target otherwise. The four examples of the
  specification hold.\<close>

theorem plan_cases:
  assumes "0 < sourceW" and "0 < sourceH"
  shows "(targetWidth opts = Some w \<and> targetHeight opts = Some h \<longrightarrow>
            target_size sourceW sourceH opts = (w, h)) \<and>
         (targetWidth opts = Some w \<and> targetHeight opts = None \<longrightarrow>
            target_size sourceW sourceH opts =
              (w, round (of_int w * of_int sourceH / (of_int sourceW :: rat)))) \<and>
         (targetWidth opts = None \<and> targetHeight opts = Some h \<longrightarrow>
            target_size sourceW sourceH opts =
              (round (of_int h * of_int sourceW / (of_int sourceH :: rat)), h)) \<and>
         (targetWidth opts = None \<and> targetHeight opts = None \<longrightarrow>
            target_size sourceW sourceH opts =
              (round (of_int sourceW * opt_scale opts), round (of_int sourceH * opt_scale opts))) \<and>
         (plan sourceW sourceH opts = Inl InvalidGeometryError) =
            (fst (target_size sourceW sourceH opts) < 1 \<or> snd (target_size sourceW sourceH opts) < 1) \<and>
         (plan sourceW sourceH opts = Inr (target_size sourceW sourceH opts)) =
            (\<not> (fst (target_size sourceW sourceH opts) < 1 \<or> snd (target_size sourceW sourceH opts) < 1)) \<and>
         plan 100 50 (default_options\<lparr>targetWidth := Some 200\<rparr>) = Inr (200, 100) \<and>
         plan 100 50 (default_options\<lparr>targetHeight := Some 25\<rparr>) = Inr (50, 25) \<and>
         plan 100 50 (default_options\<lparr>opt_scale := 3\<rparr>) = Inr (300, 150) \<and>
         plan 100 50 (default_options\<lparr>targetWidth := Some 10, targetHeight := Some 10\<rparr>) = Inr (10, 10)"
proof -
  have ex: "plan 100 50 (default_options\<lparr>targetWidth := Some 200\<rparr>) = Inr (200, 100)"
    "plan 100 50 (default_options\<lparr>targetHeight := Some 25\<rparr>) = Inr (50, 25)"
    "plan 100 50 (default_options\<lparr>opt_scale := 3\<rparr>) = Inr (300, 150)"
    "plan 100 50 (default_options\<lparr>targetWidth := Some 10, targetHeight := Some 10\<rparr>) = Inr (10, 10)"
    by (simp_all add: plan_def target_size_def default_options_def)
  have cases: "(plan sourceW sourceH opts = Inl InvalidGeometryError) =
            (fst (target_size sourceW sourceH opts) < 1 \<or> snd (target_size sourceW sourceH opts) < 1)"
    "(plan sourceW sourceH opts = Inr (target_size sourceW sourceH opts)) =
            (\<not> (fst (target_size sourceW sourceH opts) < 1 \<or> snd (target_size sourceW sourceH opts) < 1))"
    by (auto simp: plan_def split: prod.splits)
  show ?thesis
    using ex cases by (simp add: target_size_def)
qed

theorem plan_cases_witness:
  "(0 :: int) < 100 \<and> (0 :: int) < 50 \<and>
   targetWidth (default_options\<lparr>targetWidth := Some 0\<rparr>) = Some 0 \<and>
   targetHeight (default_options\<lparr>targetWidth := Some 0\<rparr>) = None \<and>
   target_size 100 50 (default_options\<lparr>targetWidth := Some 0\<rparr>) = (0, 0) \<and>
   plan 100 50 (default_options\<lparr>targetWidth := Some 0\<rparr>) = Inl InvalidGeometryError"
proof -
  have p: "(0 :: int) < 100" "(0 :: int) < 50"
    by simp_all
  have t: "targetWidth (default_options\<lparr>targetWidth := Some 0\<rparr>) = Some 0"
    "targetHeight (default_options\<lparr>targetWidth := Some 0\<rparr>) = None"
    by (simp_all add: default_options_def)
  show ?thesis
    using plan_cases [OF p, of "default_options\<lparr>targetWidth := Some 0\<rparr>" 0 0] t
    by simp
qed

subsection \<open>C5: the formats of a result are rendered independently\<close>

text \<open>C5. For every response in which each of the keys png, jpg, webp and apng is
  either absent or the data URL of an image with a plain MIME type, the render of the
  result succeeds and shows the heading, the preview when png is present, and one
  download link for each present key, in the order PNG, JPG, WEBP, APNG, each holding
  the bytes of its image; an absent key contributes nothing.\<close>

theorem render_result_formats_independent:
  assumes "well_formed p" and "well_formed j" and "well_formed w" and "well_formed a"
  shows "render_result (Some \<lparr>png = embedded p, jpg = embedded j, webp = embedded w, apng = embedded a\<rparr>) =
           Inr (Heading ''Result'' # expected_preview p
                @ expected_button ''PNG'' p ''image_enhanced.png''
                @ expected_button ''JPG'' j ''image_enhanced.jpg''
                @ expected_button ''WEBP'' w ''image_enhanced.webp''
                @ expected_button ''APNG'' a ''image_enhanced.apng'')"
proof -
  have "(case embedded p of None \<Rightarrow> [] | Some u \<Rightarrow> if u \<noteq> [] then [Preview u] else []) = expected_preview p"
    by (cases p) (auto simp: embedded_def expected_preview_def data_url_nonempty)
  then show ?thesis
    using assms by (simp add: render_result_def DownloadButton_embedded)
qed

theorem render_result_formats_independent_witness:
  "well_formed (Some (''image/png'', [72, 105, 33])) \<and> well_formed None \<and>
   well_formed (Some (''image/apng'', [72, 105])) \<and>
   render_result (Some \<lparr>png = Some ''data:image/png;base64,SGkh'', jpg = None, webp = None,
                         apng = Some ''data:image/apng;base64,SGk=''\<rparr>) =
     Inr [Heading ''Result'', Preview ''data:image/png;base64,SGkh'',
          DownloadLink ''PNG'' \<lparr>blob_bytes = [72, 105, 33], blob_type = ''image/png''\<rparr> ''image_enhanced.png'',
          DownloadLink ''APNG'' \<lparr>blob_bytes = [72, 105], blob_type = ''image/apng''\<rparr> ''image_enhanced.apng'']"
proof -
  have p: "well_formed (Some (''image/png'', [72, 105, 33]))"
    by (simp add: well_formed_def mime_plain_def printable_def code_def)
  have a: "well_formed (Some (''image/apng'', [72, 105]))"
    by (simp add: well_formed_def mime_plain_def printable_def code_def)
  have n: "well_formed None"
    by (simp add: well_formed_def)
  have l: "map ascii_lower ''image/png'' = ''image/png''" "map ascii_lower ''image/apng'' = ''image/apng''"
    by (simp_all add: ascii_lower_def code_def)
  show ?thesis
    using render_result_formats_independent [OF p n n a] p a n l sample_base64 sample_base64_short
    by (simp add: embedded_def expected_preview_def expected_button_def data_url_def)
qed

subsection \<open>C6: how a request ends\<close>

text \<open>C6, as the code has it. For every submission that issues a request: when the
  response has a status that is not ok, the error is the text API error: followed by
  the status, it is rendered, and the result stays null; when \<open>fetch\<close> rejects, or
  the body of an ok response does not parse, the error is the message of what was
  thrown, or Unknown error when it has none, it is rendered, and the result stays
  null; when the body of an ok response parses, the error stays null and the result
  is the parsed data. In every case \<open>busy\<close> is false at the end.\<close>

theorem submission_outcomes:
  assumes "onSubmit env service s = (final, [req])"
  shows "(case service req of
            Rejected m \<Rightarrow>
              error final = Some (message_or_unknown m) \<and> result final = None \<and>
              render_error final = [ErrorText (message_or_unknown m)]
          | Response status body \<Rightarrow>
              if \<not> res_ok status then
                error final = Some (''API error: '' @ string_of_nat status) \<and> result final = None \<and>
                render_error final = [ErrorText (''API error: '' @ string_of_nat status)]
              else (case body of
                      Unparsable m \<Rightarrow>
                        error final = Some (message_or_unknown m) \<and> result final = None \<and>
                        render_error final = [ErrorText (message_or_unknown m)]
                    | Parsed data \<Rightarrow> error final = None \<and> result final = data)) \<and>
         \<not> busy final"
proof -
  note fin = onSubmit_issued [OF assms]
  show ?thesis
  proof (cases "service req")
    case (Rejected m)
    then show ?thesis
      using fin by (simp add: settle_rejected render_error_def message_or_unknown_nonempty)
  next
    case (Response status body)
    show ?thesis
    proof (cases "res_ok status")
      case False
      then show ?thesis
        using fin Response by (simp add: settle_not_ok render_error_def)
    next
      case True
      then show ?thesis
        using fin Response
        by (cases body)
           (simp_all add: settle_unparsable settle_parsed render_error_def message_or_unknown_nonempty)
    qed
  qed
qed

theorem submission_outcomes_witness:
  "onSubmit None failing ready =
     (ready\<lparr>busy := False, error := Some ''API error: 500'', result := None\<rparr>,
      [\<lparr>req_method = ''POST'', req_url = ''http://localhost:8000/api/enhance'',
        req_body = build_form ready sample_file\<rparr>]) \<and>
   render_error (ready\<lparr>busy := False, error := Some ''API error: 500'', result := None\<rparr>) =
     [ErrorText ''API error: 500'']"
proof -
  have n: "string_of_nat 500 = ''500''"
    by code_simp
  have r: "\<not> res_ok 500"
    by (simp add: res_ok_def)
  have o: "onSubmit None failing ready =
     (ready\<lparr>busy := False, error := Some ''API error: 500'', result := None\<rparr>,
      [\<lparr>req_method = ''POST'', req_url = ''http://localhost:8000/api/enhance'',
        req_body = build_form ready sample_file\<rparr>])"
    by (simp add: onSubmit_def onSubmit_sync_def failing_def settle_not_ok r n ready_def
        App_initial_def API_BASE_def)
  show ?thesis
    using submission_outcomes [OF o] o r n
    by (simp add: failing_def)
qed

text \<open>C6 as stated fails: when \<open>fetch\<close> rejects there is no status, and the message
  shown is that of the rejection; and a response with the ok status 200 whose body
  is not JSON leaves an error.\<close>

theorem error_message_counterexample:
  "error (fst (onSubmit None offline ready)) = Some ''Failed to fetch'' \<and>
   res_ok 200 \<and>
   error (fst (onSubmit None garbled ready)) = Some ''Unexpected end of JSON input''"
  by (simp add: onSubmit_def onSubmit_sync_def offline_def garbled_def settle_rejected
      settle_unparsable res_ok_def message_or_unknown_def ready_def App_initial_def)

subsection \<open>C7: the initial values\<close>

text \<open>C7. The initial values of the component are scale 2.0, denoiseLuma 5,
  denoiseColor 5, claheClip 2.0, sharpenAmount 0.6, sharpenSigma 1.2 and saturation
  1.05, with the width and height fields empty; these are the defaults of
  EnhancementOptions, whose target width and height are unset.\<close>

theorem initial_values_are_defaults:
  "scale App_initial = Num 2.0 \<and> denoiseLuma App_initial = Num 5 \<and>
   denoiseColor App_initial = Num 5 \<and> claheClip App_initial = Num 2.0 \<and>
   sharpenAmount App_initial = Num 0.6 \<and> sharpenSigma App_initial = Num 1.2 \<and>
   saturation App_initial = Num 1.05 \<and> width App_initial = [] \<and> height App_initial = [] \<and>
   scale App_initial = Num (opt_scale default_options) \<and>
   denoiseLuma App_initial = Num (of_int (opt_denoiseLuma default_options)) \<and>
   denoiseColor App_initial = Num (of_int (opt_denoiseColor default_options)) \<and>
   claheClip App_initial = Num (opt_claheClip default_options) \<and>
   sharpenAmount App_initial = Num (opt_sharpenAmount default_options) \<and>
   sharpenSigma App_initial = Num (opt_sharpenSigma default_options) \<and>
   saturation App_initial = Num (opt_saturation default_options) \<and>
   targetWidth default_options = None \<and> targetHeight default_options = None"
  by (simp add: App_initial_def default_options_def)

subsection \<open>C8: out-of-range input is rejected before the stages run\<close>

text \<open>C8. An out-of-range input is rejected before any stage runs. In the service,
  options are valid exactly when every option is in its documented range (the scale
  only when no target side is set); \<open>enhance\<close> answers options that are not valid
  with InvalidOptionError, and POST /api/enhance answers every form whose fields do not
  decode to valid options with InvalidOptionError, whatever the decoder, the stages
  and the encoder are; the planner by itself fails on width 0 with
  InvalidGeometryError. In the client, a width field holding the string 0 fails the
  \<open>min\<close> of the width input, and a request to submit then issues nothing; and
  whenever the form does issue a request, the width, the height and the six strengths
  meet \<open>min\<close>, \<open>max\<close> and \<open>step\<close> of their inputs. Together: whenever the service
  accepts the form that \<open>onSubmit\<close> builds, the six strengths are numbers within their
  ranges, a scale that is sent is positive, and a width or height that is sent is at
  least 1; in particular the request that \<open>onSubmit\<close> builds for the width 0, or for
  the scale -1 with no target side, is answered with InvalidOptionError.\<close>

theorem out_of_range_rejected:
  "valid_options opts =
     ((case targetWidth opts of None \<Rightarrow> True | Some w \<Rightarrow> 1 \<le> w) \<and>
      (case targetHeight opts of None \<Rightarrow> True | Some h \<Rightarrow> 1 \<le> h) \<and>
      (if targetWidth opts = None \<and> targetHeight opts = None then 0 < opt_scale opts else True) \<and>
      0 \<le> opt_denoiseLuma opts \<and> opt_denoiseLuma opts \<le> 20 \<and>
      0 \<le> opt_denoiseColor opts \<and> opt_denoiseColor opts \<le> 20 \<and>
      0.5 \<le> opt_claheClip opts \<and> opt_claheClip opts \<le> 5 \<and>
      0 \<le> opt_sharpenAmount opts \<and> opt_sharpenAmount opts \<le> 2 \<and>
      0.1 \<le> opt_sharpenSigma opts \<and> opt_sharpenSigma opts \<le> 3 \<and>
      0 \<le> opt_saturation opts \<and> opt_saturation opts \<le> 2) \<and>
   (\<not> valid_options opts \<longrightarrow>
      enhance decode size_of stages encode bytes opts = Inl InvalidOptionError) \<and>
   (\<not> (\<exists>opts'. options_of_form form = Inr opts' \<and> valid_options opts') \<longrightarrow>
      api_enhance decode size_of stages encode form = Inl InvalidOptionError) \<and>
   plan sourceW sourceH (default_options\<lparr>targetWidth := Some 0\<rparr>) = Inl InvalidGeometryError \<and>
   (width s = ''0'' \<longrightarrow>
      \<not> constraints_met s \<and> request_submit env constraints_met s = (s, None)) \<and>
   (snd (request_submit env constraints_met s) = Some req \<longrightarrow>
      text_input_ok (Some 1) None 1 1 (width s) \<and>
      text_input_ok (Some 1) None 1 1 (height s) \<and>
      number_input_ok (Some 0) (Some 20) 1 0 (denoiseLuma s) \<and>
      number_input_ok (Some 0) (Some 20) 1 0 (denoiseColor s) \<and>
      number_input_ok (Some 0.5) (Some 5) 0.1 0.5 (claheClip s) \<and>
      number_input_ok (Some 0) (Some 2) 0.1 0 (sharpenAmount s) \<and>
      number_input_ok (Some 0.1) (Some 3) 0.1 0.1 (sharpenSigma s) \<and>
      number_input_ok (Some 0) (Some 2) 0.01 0 (saturation s)) \<and>
   (api_enhance decode size_of stages encode (build_form s f) = Inr out \<longrightarrow>
      (case denoiseLuma s of NaN \<Rightarrow> False | Num q \<Rightarrow> 0 \<le> q \<and> q \<le> 20) \<and>
      (case denoiseColor s of NaN \<Rightarrow> False | Num q \<Rightarrow> 0 \<le> q \<and> q \<le> 20) \<and>
      (case claheClip s of NaN \<Rightarrow> False | Num q \<Rightarrow> 0.5 \<le> q \<and> q \<le> 5) \<and>
      (case sharpenAmount s of NaN \<Rightarrow> False | Num q \<Rightarrow> 0 \<le> q \<and> q \<le> 2) \<and>
      (case sharpenSigma s of NaN \<Rightarrow> False | Num q \<Rightarrow> 0.1 \<le> q \<and> q \<le> 3) \<and>
      (case saturation s of NaN \<Rightarrow> False | Num q \<Rightarrow> 0 \<le> q \<and> q \<le> 2) \<and>
      (if width s = [] \<and> height s = [] then (case scale s of NaN \<Rightarrow> False | Num q \<Rightarrow> 0 < q)
       else True) \<and>
      (if width s = [] then True
       else (case parseInt (width s) of NaN \<Rightarrow> False | Num q \<Rightarrow> 1 \<le> q)) \<and>
      (if height s = [] then True
       else (case parseInt (height s) of NaN \<Rightarrow> False | Num q \<Rightarrow> 1 \<le> q))) \<and>
   (file' s = Some f \<and> (width s = ''0'' \<or> (width s = [] \<and> height s = [] \<and> scale s = Num (- 1))) \<longrightarrow>
      snd (onSubmit_sync env s) =
        Some \<lparr>req_method = ''POST'', req_url = API_BASE env @ ''/api/enhance'',
              req_body = build_form s f\<rparr> \<and>
      api_enhance decode size_of stages encode (build_form s f) = Inl InvalidOptionError)"
proof -
  have ranges: "valid_options opts =
     ((case targetWidth opts of None \<Rightarrow> True | Some w \<Rightarrow> 1 \<le> w) \<and>
      (case targetHeight opts of None \<Rightarrow> True | Some h \<Rightarrow> 1 \<le> h) \<and>
      (if targetWidth opts = None \<and> targetHeight opts = None then 0 < opt_scale opts else True) \<and>
      0 \<le> opt_denoiseLuma opts \<and> opt_denoiseLuma opts \<le> 20 \<and>
      0 \<le> opt_denoiseColor opts \<and> opt_denoiseColor opts \<le> 20 \<and>
      0.5 \<le> opt_claheClip opts \<and> opt_claheClip opts \<le> 5 \<and>
      0 \<le> opt_sharpenAmount opts \<and> opt_sharpenAmount opts \<le> 2 \<and>
      0.1 \<le> opt_sharpenSigma opts \<and> opt_sharpenSigma opts \<le> 3 \<and>
      0 \<le> opt_saturation opts \<and> opt_saturation opts \<le> 2)"
    by (auto simp: valid_options_def split: option.splits)
  have service: "\<not> valid_options opts \<longrightarrow>
      enhance decode size_of stages encode bytes opts = Inl InvalidOptionError"
    by (simp add: enhance_invalid)
  have boundary: "\<not> (\<exists>opts'. options_of_form form = Inr opts' \<and> valid_options opts') \<longrightarrow>
      api_enhance decode size_of stages encode form = Inl InvalidOptionError"
    using api_enhance_only_valid [of form decode size_of stages encode] by blast
  have planner: "plan sourceW sourceH (default_options\<lparr>targetWidth := Some 0\<rparr>) = Inl InvalidGeometryError"
    by (simp add: plan_def target_size_def default_options_def)
  have blocked: "width s = ''0'' \<longrightarrow>
      \<not> constraints_met s \<and> request_submit env constraints_met s = (s, None)"
    using width_zero_blocked [of s] by (simp add: request_submit_def)
  have inputs: "snd (request_submit env constraints_met s) = Some req \<longrightarrow>
      text_input_ok (Some 1) None 1 1 (width s) \<and>
      text_input_ok (Some 1) None 1 1 (height s) \<and>
      number_input_ok (Some 0) (Some 20) 1 0 (denoiseLuma s) \<and>
      number_input_ok (Some 0) (Some 20) 1 0 (denoiseColor s) \<and>
      number_input_ok (Some 0.5) (Some 5) 0.1 0.5 (claheClip s) \<and>
      number_input_ok (Some 0) (Some 2) 0.1 0 (sharpenAmount s) \<and>
      number_input_ok (Some 0.1) (Some 3) 0.1 0.1 (sharpenSigma s) \<and>
      number_input_ok (Some 0) (Some 2) 0.01 0 (saturation s)"
    using submitted_within_input_ranges [of env s req] by blast
  have accepted: "api_enhance decode size_of stages encode (build_form s f) = Inr out \<longrightarrow>
      (case denoiseLuma s of NaN \<Rightarrow> False | Num q \<Rightarrow> 0 \<le> q \<and> q \<le> 20) \<and>
      (case denoiseColor s of NaN \<Rightarrow> False | Num q \<Rightarrow> 0 \<le> q \<and> q \<le> 20) \<and>
      (case claheClip s of NaN \<Rightarrow> False | Num q \<Rightarrow> 0.5 \<le> q \<and> q \<le> 5) \<and>
      (case sharpenAmount s of NaN \<Rightarrow> False | Num q \<Rightarrow> 0 \<le> q \<and> q \<le> 2) \<and>
      (case sharpenSigma s of NaN \<Rightarrow> False | Num q \<Rightarrow> 0.1 \<le> q \<and> q \<le> 3) \<and>
      (case saturation s of NaN \<Rightarrow> False | Num q \<Rightarrow> 0 \<le> q \<and> q \<le> 2) \<and>
      (if width s = [] \<and> height s = [] then (case scale s of NaN \<Rightarrow> False | Num q \<Rightarrow> 0 < q)
       else True) \<and>
      (if width s = [] then True
       else (case parseInt (width s) of NaN \<Rightarrow> False | Num q \<Rightarrow> 1 \<le> q)) \<and>
      (if height s = [] then True
       else (case parseInt (height s) of NaN \<Rightarrow> False | Num q \<Rightarrow> 1 \<le> q))"
  proof
    assume a: "api_enhance decode size_of stages encode (build_form s f) = Inr out"
    obtain opts' where "options_of_form (build_form s f) = Inr opts'" and "valid_options opts'"
      using accepted_options [OF a] by blast
    then show "(case denoiseLuma s of NaN \<Rightarrow> False | Num q \<Rightarrow> 0 \<le> q \<and> q \<le> 20) \<and>
      (case denoiseColor s of NaN \<Rightarrow> False | Num q \<Rightarrow> 0 \<le> q \<and> q \<le> 20) \<and>
      (case claheClip s of NaN \<Rightarrow> False | Num q \<Rightarrow> 0.5 \<le> q \<and> q \<le> 5) \<and>
      (case sharpenAmount s of NaN \<Rightarrow> False | Num q \<Rightarrow> 0 \<le> q \<and> q \<le> 2) \<and>
      (case sharpenSigma s of NaN \<Rightarrow> False | Num q \<Rightarrow> 0.1 \<le> q \<and> q \<le> 3) \<and>
      (case saturation s of NaN \<Rightarrow> False | Num q \<Rightarrow> 0 \<le> q \<and> q \<le> 2) \<and>
      (if width s = [] \<and> height s = [] then (case scale s of NaN \<Rightarrow> False | Num q \<Rightarrow> 0 < q)
       else True) \<and>
      (if width s = [] then True
       else (case parseInt (width s) of NaN \<Rightarrow> False | Num q \<Rightarrow> 1 \<le> q)) \<and>
      (if height s = [] then True
       else (case parseInt (height s) of NaN \<Rightarrow> False | Num q \<Rightarrow> 1 \<le> q))"
      by (intro conjI valid_form_in_range)
  qed
  have forwarded: "file' s = Some f \<and> (width s = ''0'' \<or> (width s = [] \<and> height s = [] \<and> scale s = Num (- 1))) \<longrightarrow>
      snd (onSubmit_sync env s) =
        Some \<lparr>req_method = ''POST'', req_url = API_BASE env @ ''/api/enhance'',
              req_body = build_form s f\<rparr> \<and>
      api_enhance decode size_of stages encode (build_form s f) = Inl InvalidOptionError"
    using api_enhance_rejects [of s decode size_of stages encode f]
    by (simp add: onSubmit_sync_def)
  show ?thesis
    using ranges service boundary planner blocked inputs accepted forwarded
    by (intro conjI)
qed


theorem out_of_range_rejected_witness:
  "\<not> valid_options (default_options\<lparr>opt_denoiseLuma := 999\<rparr>) \<and>
   enhance sample_decode sample_size sample_stages sample_encode [137, 80]
     (default_options\<lparr>opt_denoiseLuma := 999\<rparr>) = Inl InvalidOptionError \<and>
   api_enhance sample_decode sample_size sample_stages sample_encode
     (build_form (ready\<lparr>denoiseLuma := Num 999\<rparr>) sample_file) = Inl InvalidOptionError \<and>
   width (ready\<lparr>width := ''0''\<rparr>) = ''0'' \<and>
   request_submit None constraints_met (ready\<lparr>width := ''0''\<rparr>) = (ready\<lparr>width := ''0''\<rparr>, None) \<and>
   snd (request_submit None constraints_met ready) =
     Some \<lparr>req_method = ''POST'', req_url = ''http://localhost:8000/api/enhance'',
           req_body = build_form ready sample_file\<rparr> \<and>
   number_input_ok (Some 0) (Some 20) 1 0 (denoiseLuma ready) \<and>
   api_enhance sample_decode sample_size sample_stages sample_encode (build_form ready sample_file) =
     Inr [137, 80, 78, 71] \<and>
   (case saturation ready of NaN \<Rightarrow> False | Num q \<Rightarrow> 0 \<le> q \<and> q \<le> 2) \<and>
   file' (ready\<lparr>scale := Num (- 1)\<rparr>) = Some sample_file \<and>
   width (ready\<lparr>scale := Num (- 1)\<rparr>) = [] \<and> height (ready\<lparr>scale := Num (- 1)\<rparr>) = [] \<and>
   scale (ready\<lparr>scale := Num (- 1)\<rparr>) = Num (- 1) \<and>
   api_enhance sample_decode sample_size sample_stages sample_encode
     (build_form (ready\<lparr>scale := Num (- 1)\<rparr>) sample_file) = Inl InvalidOptionError"
proof -
  note t1 = out_of_range_rejected [where opts = "default_options\<lparr>opt_denoiseLuma := 999\<rparr>"
        and decode = sample_decode and size_of = sample_size and stages = sample_stages
        and encode = sample_encode and bytes = "[137, 80]"
        and form = "build_form (ready\<lparr>denoiseLuma := Num 999\<rparr>) sample_file"
        and s = "ready\<lparr>width := ''0''\<rparr>" and env = None and f = sample_file]
  note t2 = out_of_range_rejected [where decode = sample_decode and size_of = sample_size
        and stages = sample_stages and encode = sample_encode
        and s = ready and env = None and f = sample_file and out = "[137, 80, 78, 71]"
        and req = "\<lparr>req_method = ''POST'', req_url = ''http://localhost:8000/api/enhance'',
           req_body = build_form ready sample_file\<rparr>"]
  note t3 = out_of_range_rejected [where decode = sample_decode and size_of = sample_size
        and stages = sample_stages and encode = sample_encode
        and s = "ready\<lparr>scale := Num (- 1)\<rparr>" and env = None and f = sample_file]
  note service = t1 [THEN conjunct2, THEN conjunct1]
  note boundary = t1 [THEN conjunct2, THEN conjunct2, THEN conjunct1]
  note blocked = t1 [THEN conjunct2, THEN conjunct2, THEN conjunct2, THEN conjunct2, THEN conjunct1]
  note inputs = t2 [THEN conjunct2, THEN conjunct2, THEN conjunct2, THEN conjunct2, THEN conjunct2,
      THEN conjunct1]
  note accepted = t2 [THEN conjunct2, THEN conjunct2, THEN conjunct2, THEN conjunct2, THEN conjunct2,
      THEN conjunct2, THEN conjunct1]
  note forwarded = t3 [THEN conjunct2, THEN conjunct2, THEN conjunct2, THEN conjunct2,
      THEN conjunct2, THEN conjunct2, THEN conjunct2]
  have nv: "\<not> valid_options (default_options\<lparr>opt_denoiseLuma := 999\<rparr>)"
    by (simp add: valid_options_def)
  have o: "options_of_form (build_form (ready\<lparr>denoiseLuma := Num 999\<rparr>) sample_file) =
             Inr (default_options\<lparr>opt_denoiseLuma := 999\<rparr>)"
    using options_of_ready [of 999] by simp
  have none: "\<not> (\<exists>opts'. options_of_form (build_form (ready\<lparr>denoiseLuma := Num 999\<rparr>) sample_file) = Inr opts'
                \<and> valid_options opts')"
    using nv by (simp add: o)
  have w: "width (ready\<lparr>width := ''0''\<rparr>) = ''0''"
    by simp
  have r: "snd (request_submit None constraints_met ready) =
     Some \<lparr>req_method = ''POST'', req_url = ''http://localhost:8000/api/enhance'',
           req_body = build_form ready sample_file\<rparr>"
    using constraints_met_initial [of "Some sample_file"]
    by (simp add: request_submit_def submit_disabled_def canSubmit_def onSubmit_sync_def ready_def
        API_BASE_def App_initial_def)
  have n: "file' (ready\<lparr>scale := Num (- 1)\<rparr>) = Some sample_file"
    "width (ready\<lparr>scale := Num (- 1)\<rparr>) = []" "height (ready\<lparr>scale := Num (- 1)\<rparr>) = []"
    "scale (ready\<lparr>scale := Num (- 1)\<rparr>) = Num (- 1)"
    by (simp_all add: ready_def App_initial_def)
  have e1: "enhance sample_decode sample_size sample_stages sample_encode [137, 80]
     (default_options\<lparr>opt_denoiseLuma := 999\<rparr>) = Inl InvalidOptionError"
    using service nv by (rule mp)
  have e2: "api_enhance sample_decode sample_size sample_stages sample_encode
     (build_form (ready\<lparr>denoiseLuma := Num 999\<rparr>) sample_file) = Inl InvalidOptionError"
    using boundary none by (rule mp)
  have e3: "request_submit None constraints_met (ready\<lparr>width := ''0''\<rparr>) = (ready\<lparr>width := ''0''\<rparr>, None)"
    using mp [OF blocked w] by (rule conjunct2)
  have e4: "number_input_ok (Some 0) (Some 20) 1 0 (denoiseLuma ready)"
    using mp [OF inputs r] by blast
  have e5: "(case saturation ready of NaN \<Rightarrow> False | Num q \<Rightarrow> 0 \<le> q \<and> q \<le> 2)"
    using mp [OF accepted ready_accepted] by blast
  have e6: "api_enhance sample_decode sample_size sample_stages sample_encode
     (build_form (ready\<lparr>scale := Num (- 1)\<rparr>) sample_file) = Inl InvalidOptionError"
    using forwarded n by blast
  show ?thesis
    using nv e1 e2 w e3 r e4 ready_accepted e5 n e6 by (intro conjI)
qed

subsection \<open>C9: \<open>dataUrlToBlob\<close> and data URLs\<close>

text \<open>C9, as the code has it. For every MIME type \<open>m\<close> of printable ASCII characters
  without a comma and every byte sequence \<open>bs\<close>, \<open>dataUrlToBlob\<close> applied to
  \<open>data:\<close> + \<open>m\<close> + \<open>;base64,\<close> + base64(\<open>bs\<close>) returns a Blob whose bytes are exactly
  \<open>bs\<close> and whose type is \<open>m\<close> in ASCII lowercase (\<open>m\<close> itself when it has no capital
  letter). For every input whose header, the part before the first comma, does not
  match \<open>data:(.*);base64\<close>, a Blob that is returned has the type
  application/octet-stream.\<close>

theorem dataUrlToBlob_left_inverse:
  "(list_all printable m \<and> CHR '','' \<notin> set m \<longrightarrow>
      dataUrlToBlob (''data:'' @ m @ '';base64,'' @ base64 bs) =
        Inr \<lparr>blob_bytes = bs, blob_type = map ascii_lower m\<rparr>) \<and>
   (mime_match (hd (split CHR '','' u)) = None \<and> dataUrlToBlob u = Inr b \<longrightarrow>
      blob_type b = ''application/octet-stream'')"
  using dataUrlToBlob_plain_mime [of m bs] dataUrlToBlob_no_match [of u b]
  by (simp add: data_url_def)

theorem dataUrlToBlob_left_inverse_witness:
  "list_all printable ''image/png'' \<and> CHR '','' \<notin> set ''image/png'' \<and>
   dataUrlToBlob ''data:image/png;base64,SGkh'' =
     Inr \<lparr>blob_bytes = [72, 105, 33], blob_type = ''image/png''\<rparr> \<and>
   mime_match (hd (split CHR '','' ''zzz,SGkh'')) = None \<and>
   dataUrlToBlob ''zzz,SGkh'' =
     Inr \<lparr>blob_bytes = [72, 105, 33], blob_type = ''application/octet-stream''\<rparr>"
proof -
  have p: "list_all printable ''image/png''"
    by (simp add: printable_def code_def)
  have c: "CHR '','' \<notin> set ''image/png''"
    by simp
  have l: "map ascii_lower ''image/png'' = ''image/png''"
    by (simp add: ascii_lower_def code_def)
  have n: "mime_match (hd (split CHR '','' ''zzz,SGkh'')) = None"
    by simp
  have d: "dataUrlToBlob ''zzz,SGkh'' =
     Inr \<lparr>blob_bytes = [72, 105, 33], blob_type = ''application/octet-stream''\<rparr>"
    by code_simp
  show ?thesis
    using dataUrlToBlob_left_inverse [of "''image/png''" "[72, 105, 33]" "''zzz,SGkh''"
        "\<lparr>blob_bytes = [72, 105, 33], blob_type = ''application/octet-stream''\<rparr>"]
      p c l n d sample_base64
    by simp
qed

text \<open>C9 as stated fails: with a comma in the MIME type the split cuts the header
  short and \<open>atob\<close> throws on what follows, so no Blob is returned; and a MIME type
  with capital letters comes back in lowercase.\<close>

theorem dataUrlToBlob_mime_counterexample:
  "dataUrlToBlob (''data:'' @ ''a,b'' @ '';base64,'' @ base64 [72, 105, 33]) = Inl InvalidCharacterError \<and>
   dataUrlToBlob (''data:'' @ ''image/PNG'' @ '';base64,'' @ base64 [72, 105, 33]) =
     Inr \<lparr>blob_bytes = [72, 105, 33], blob_type = ''image/png''\<rparr>"
  by code_simp

subsection \<open>C10: one request at a time, and none without a file\<close>

text \<open>C10. \<open>onSubmit\<close> issues no request and changes nothing when no file is chosen;
  the submit button is disabled exactly when no file is chosen or \<open>busy\<close> holds;
  \<open>onSubmit\<close> with a file sets \<open>busy\<close>, and the end of a request clears it whatever the
  outcome; and after any sequence of events on a mounted component, whatever the
  browser's validation of the form lets through, at most one request is in flight,
  \<open>busy\<close> holds exactly while one is, and every request issued carries a file.\<close>

theorem single_request_in_flight:
  "(file' s = None \<longrightarrow> onSubmit env service s = (s, [])) \<and>
   submit_disabled s = (file' s = None \<or> busy s) \<and>
   (file' s \<noteq> None \<longrightarrow> busy (fst (onSubmit_sync env s))) \<and>
   \<not> busy (onSubmit_settle out s) \<and>
   length (in_flight (run env valid es mounted)) \<le> 1 \<and>
   busy (ui (run env valid es mounted)) = (in_flight (run env valid es mounted) \<noteq> []) \<and>
   list_all has_file (issued (run env valid es mounted))"
proof -
  have "steady (run env valid es mounted)"
    using steady_mounted by (rule steady_run)
  then show ?thesis
    by (auto simp: steady_def busy_settle onSubmit_def onSubmit_sync_def submit_disabled_def
        canSubmit_def split: option.splits)
qed

theorem single_request_in_flight_witness:
  "file' App_initial = None \<and> onSubmit None offline App_initial = (App_initial, []) \<and>
   submit_disabled App_initial \<and>
   file' ready \<noteq> None \<and> busy (fst (onSubmit_sync None ready)) \<and> \<not> submit_disabled ready \<and>
   length (in_flight (run None constraints_met [ChooseFile (Some sample_file), Submit, Submit] mounted)) = 1 \<and>
   busy (ui (run None constraints_met [ChooseFile (Some sample_file), Submit, Submit] mounted)) \<and>
   \<not> busy (ui (run None constraints_met [ChooseFile (Some sample_file), Submit, Settle (Response 200 (Parsed None))] mounted))"
proof -
  have a: "file' App_initial = None" "\<not> busy App_initial"
    by (simp_all add: App_initial_def)
  have r: "file' ready \<noteq> None" "\<not> busy ready"
    by (simp_all add: ready_def App_initial_def)
  have v: "constraints_met (App_initial\<lparr>file' := Some sample_file\<rparr>)"
    by (rule constraints_met_initial)
  have b: "busy (ui (run None constraints_met [ChooseFile (Some sample_file), Submit, Submit] mounted))"
    using v
    by (simp add: mounted_def request_submit_def submit_disabled_def canSubmit_def
        onSubmit_sync_def App_initial_def)
  have c: "in_flight (run None constraints_met [ChooseFile (Some sample_file), Submit, Settle (Response 200 (Parsed None))] mounted) = []"
    using v
    by (simp add: mounted_def request_submit_def submit_disabled_def canSubmit_def
        onSubmit_sync_def App_initial_def)
  show ?thesis
    using single_request_in_flight [of App_initial None offline "Rejected None" constraints_met
        "[ChooseFile (Some sample_file), Submit, Submit]"]
      single_request_in_flight [of ready None offline "Rejected None" constraints_met
        "[ChooseFile (Some sample_file), Submit, Settle (Response 200 (Parsed None))]"]
      a r b c
    by (auto simp: le_Suc_eq)
qed

end
